theory Spec2Isabelle
  imports Complex_Main "HOL-Library.Word"
begin

section \<open>EdgeSAM inference orchestration (edgeSam.cpp)\<close>

text \<open>
  The development embeds \<^verbatim>\<open>struct SamModel\<close> and the \<^verbatim>\<open>Sam\<close> facade of
  \<^verbatim>\<open>src/edgeSam.cpp\<close>. Conventions:
  \<^item> C++ \<^verbatim>\<open>int\<close> and \<^verbatim>\<open>int64_t\<close> values are HOL integers; the narrowing
    conversion from \<^verbatim>\<open>int64_t\<close> (or \<^verbatim>\<open>size_t\<close>) to \<^verbatim>\<open>int\<close> is written out as
    \<open>to_int\<close>, and a product of \<^verbatim>\<open>int64_t\<close> values that leaves the type is a fault;
  \<^item> \<^verbatim>\<open>float\<close> and \<^verbatim>\<open>double\<close> values are real numbers: conversions from integers
    and the division by 255 are taken exactly, rounding is not modelled;
  \<^item> \<^verbatim>\<open>uchar\<close> pixels are 8-bit words;
  \<^item> the sums of \<^verbatim>\<open>cv::Rect::br()\<close> wrap around at 32 bits;
  \<^item> an element access outside a vector or buffer, a null session handle and an
    exception of the inference runtime or of OpenCV are values of type \<open>fault\<close>;
    memory is unbounded, so an allocation fails only for a negative size;
  \<^item> the inference runtime and \<^verbatim>\<open>cv::resize\<close> are parameters: a session carries its
    declared counts and shapes and its run functions, and an exception of
    \<^verbatim>\<open>Ort::Value::CreateTensor\<close> is reported by the run that takes the tensor (in
    loadImage as an outcome of its own, since the input tensor is created before the
    cache is reassigned).
\<close>

subsection \<open>Machine integers and faults\<close>

type_synonym float = real

definition to_int :: "int \<Rightarrow> int" where
  \<comment> \<open>conversion to a 32-bit \<^verbatim>\<open>int\<close>: the value modulo \<open>2^32\<close>, read as signed\<close>
  "to_int v = (v + 2 ^ 31) mod 2 ^ 32 - 2 ^ 31"

definition int_range :: "int \<Rightarrow> bool" where
  "int_range v \<longleftrightarrow> - (2 ^ 31) \<le> v \<and> v < 2 ^ 31"

definition int64_range :: "int \<Rightarrow> bool" where
  "int64_range v \<longleftrightarrow> - (2 ^ 63) \<le> v \<and> v < 2 ^ 63"

datatype fault =
    OutOfRange        \<comment> \<open>element access outside a vector or an image buffer\<close>
  | NullPointer       \<comment> \<open>call through an empty \<^verbatim>\<open>unique_ptr<Ort::Session>\<close>\<close>
  | SignedOverflow    \<comment> \<open>a product of \<^verbatim>\<open>int64_t\<close> values outside the type\<close>
  | LengthError       \<comment> \<open>\<^verbatim>\<open>std::vector\<close> asked for a negative (huge unsigned) size\<close>
  | OrtException      \<comment> \<open>the inference runtime threw\<close>
  | CvException       \<comment> \<open>OpenCV threw\<close>

type_synonym 'a result = "fault + 'a"

definition and_then :: "'a result \<Rightarrow> ('a \<Rightarrow> 'b result) \<Rightarrow> 'b result" where
  "and_then r f = (case r of Inl e \<Rightarrow> Inl e | Inr v \<Rightarrow> f v)"

definition vec_at :: "'a list \<Rightarrow> int \<Rightarrow> 'a result" where
  \<comment> \<open>\<^verbatim>\<open>v[i]\<close> on a \<^verbatim>\<open>std::vector\<close> or a raw buffer of known extent\<close>
  "vec_at xs i = (if 0 \<le> i \<and> i < int (length xs) then Inr (xs ! nat i) else Inl OutOfRange)"

definition vec_set :: "'a list \<Rightarrow> int \<Rightarrow> 'a \<Rightarrow> 'a list result" where
  \<comment> \<open>\<^verbatim>\<open>v[i] = x\<close>\<close>
  "vec_set xs i x =
     (if 0 \<le> i \<and> i < int (length xs) then Inr (xs[nat i := x]) else Inl OutOfRange)"

definition mul64 :: "int \<Rightarrow> int \<Rightarrow> int result" where
  "mul64 a b = (if int64_range (a * b) then Inr (a * b) else Inl SignedOverflow)"

definition new_vector :: "int \<Rightarrow> float list result" where
  \<comment> \<open>\<^verbatim>\<open>std::vector<float>(n)\<close> and \<^verbatim>\<open>resize(n)\<close> on an empty vector: \<open>n\<close> zeros\<close>
  "new_vector n = (if n < 0 then Inl LengthError else Inr (replicate (nat n) 0))"

primrec for_each :: "'i list \<Rightarrow> ('i \<Rightarrow> 's \<Rightarrow> 's result) \<Rightarrow> 's \<Rightarrow> 's result" where
  \<comment> \<open>a loop over the given indices that stops at the first fault\<close>
  "for_each [] body s = Inr s"
| "for_each (i # rest) body s =
     (case body i s of Inl e \<Rightarrow> Inl e | Inr s' \<Rightarrow> for_each rest body s')"

subsection \<open>OpenCV value types\<close>

datatype Point = Point (pt_x: int) (pt_y: int)

datatype Size = Size (size_width: int) (size_height: int)

datatype Rect = Rect (rect_x: int) (rect_y: int) (rect_width: int) (rect_height: int)

definition rect_empty :: "Rect \<Rightarrow> bool" where
  \<comment> \<open>\<^verbatim>\<open>cv::Rect::empty()\<close>\<close>
  "rect_empty r \<longleftrightarrow> rect_width r \<le> 0 \<or> rect_height r \<le> 0"

definition rect_br :: "Rect \<Rightarrow> Point" where
  \<comment> \<open>\<^verbatim>\<open>cv::Rect::br()\<close>: the sums are 32-bit\<close>
  "rect_br r = Point (to_int (rect_x r + rect_width r)) (to_int (rect_y r + rect_height r))"

subsection \<open>Prompt encoding (getMask, the point and box loops)\<close>

definition push_point :: "float \<Rightarrow> Point \<Rightarrow> float list \<times> float list \<Rightarrow> float list \<times> float list" where
  \<comment> \<open>two \<^verbatim>\<open>push_back\<close> on \<^verbatim>\<open>inputPointValues\<close>, one on \<^verbatim>\<open>inputLabelValues\<close>\<close>
  "push_point label p acc =
     (fst acc @ [of_int (pt_x p), of_int (pt_y p)], snd acc @ [label])"

definition encode_prompt :: "Point list \<Rightarrow> Point list \<Rightarrow> Rect \<Rightarrow> float list \<times> float list" where
  "encode_prompt points negativePoints roi =
     (let acc1 = fold (push_point 1) points ([], []);
          acc2 = fold (push_point 0) negativePoints acc1
      in if \<not> rect_empty roi
         then push_point 3 (rect_br roi) (push_point 2 (Point (rect_x roi) (rect_y roi)) acc2)
         else acc2)"

definition point_coords :: "Point \<Rightarrow> float list" where
  "point_coords p = [of_int (pt_x p), of_int (pt_y p)]"

subsection \<open>Images, tensors and the inference runtime\<close>

text \<open>
  A \<^verbatim>\<open>cv::Mat\<close> is its header and its continuous buffer; the element type of the buffer
  is the depth (8-bit words for \<^verbatim>\<open>CV_8U\<close>, floats for \<^verbatim>\<open>CV_32F\<close>), so the type
  \<^verbatim>\<open>CV_8UC1\<close> is an 8-bit matrix with one channel.
\<close>

record 'a Mat =
  mat_rows :: int
  mat_cols :: int
  mat_channels :: int
  mat_data :: "'a list"

definition mat_size :: "'a Mat \<Rightarrow> Size" where
  "mat_size m = Size (mat_cols m) (mat_rows m)"

definition empty_Mat :: "8 word Mat" where
  \<comment> \<open>\<^verbatim>\<open>cv::Mat m;\<close>\<close>
  "empty_Mat = \<lparr>mat_rows = 0, mat_cols = 0, mat_channels = 1, mat_data = []\<rparr>"

definition new_Mat :: "int \<Rightarrow> int \<Rightarrow> 8 word Mat result" where
  \<comment> \<open>\<^verbatim>\<open>cv::Mat(rows, cols, CV_8UC1)\<close>; the fresh buffer is overwritten before it is read\<close>
  "new_Mat r c =
     (if r < 0 \<or> c < 0 then Inl CvException
      else Inr \<lparr>mat_rows = r, mat_cols = c, mat_channels = 1,
                 mat_data = replicate (nat (r * c)) 0\<rparr>)"

definition at_Vec3b :: "8 word Mat \<Rightarrow> int \<Rightarrow> int \<Rightarrow> int \<Rightarrow> 8 word result" where
  \<comment> \<open>\<^verbatim>\<open>image.at<cv::Vec3b>(i, j)[c]\<close>\<close>
  "at_Vec3b img i j c = vec_at (mat_data img) ((i * mat_cols img + j) * 3 + c)"

definition at_elem :: "'a Mat \<Rightarrow> int \<Rightarrow> int \<Rightarrow> 'a result" where
  \<comment> \<open>\<^verbatim>\<open>m.at<T>(i, j)\<close> on a one-channel matrix\<close>
  "at_elem m i j = vec_at (mat_data m) (i * mat_cols m + j)"

record Tensor =
  t_data :: "float list"     \<comment> \<open>the buffer behind \<^verbatim>\<open>p_data\<close>\<close>
  t_count :: int             \<comment> \<open>\<^verbatim>\<open>p_data_element_count\<close>\<close>
  t_shape :: "int list"

text \<open>
  An \<^verbatim>\<open>Ort::Session\<close> is what the code asks of it. \<open>Run\<close> is the overload that returns
  the output tensors; tensor creation and the run itself belong to the runtime, and
  \<open>None\<close> stands for an exception thrown by either. \<open>RunBound\<close> is the overload that
  fills caller-provided output tensors, with the tensor creations that precede it in
  loadImage. Its outcome tells apart what the state of the caller depends on: creating
  the input tensor threw (loadImage has not yet touched the cache), creating the output
  tensor or the run threw (the cache has been reassigned), or the run returned, with
  the new contents of the output buffers.
\<close>

datatype bound_run =
    TensorRejected              \<comment> \<open>\<^verbatim>\<open>CreateTensor\<close> on the input buffer threw\<close>
  | RunThrew                    \<comment> \<open>\<^verbatim>\<open>CreateTensor\<close> on the output buffer or \<^verbatim>\<open>Run\<close> threw\<close>
  | RunFilled "float list list" \<comment> \<open>the contents of the output buffers after \<^verbatim>\<open>Run\<close>\<close>

record Session =
  GetInputCount :: nat
  GetOutputCount :: nat
  GetInputShape :: "int list"    \<comment> \<open>\<^verbatim>\<open>GetInputTypeInfo(0).GetTensorTypeAndShapeInfo().GetShape()\<close>\<close>
  GetOutputShape :: "int list"
  Run :: "(string \<times> Tensor) list \<Rightarrow> string list \<Rightarrow> Tensor list option"
  RunBound :: "(string \<times> Tensor) list \<Rightarrow> (string \<times> Tensor) list \<Rightarrow> bound_run"

subsection \<open>SamModel\<close>

record SamModel =
  sessionPre :: "Session option"
  sessionSam :: "Session option"
  inputShapePre :: "int list"
  outputShapePre :: "int list"
  outputTensorValuesPre :: "float list"
  bModelLoaded :: bool

definition inputNamesEdgeSam :: "string list" where
  "inputNamesEdgeSam = [''image_embeddings'', ''point_coords'', ''point_labels'']"

definition outputNamesEdgeSam :: "string list" where
  "outputNamesEdgeSam = [''scores'', ''masks'']"

datatype Parameter = Parameter (models0: string) (models1: string) (threadsNumber: int)

definition SamModel_members :: SamModel where
  \<comment> \<open>the default member initialisers\<close>
  "SamModel_members =
     \<lparr>sessionPre = None, sessionSam = None, inputShapePre = [], outputShapePre = [],
      outputTensorValuesPre = [], bModelLoaded = False\<rparr>"

definition SamModel_ctor ::
  "(string \<Rightarrow> bool) \<Rightarrow> (string \<Rightarrow> Session option) \<Rightarrow> Parameter \<Rightarrow> SamModel result" where
  \<comment> \<open>\<open>file_good p\<close>: \<^verbatim>\<open>std::ifstream f(p); f.good()\<close>;
      \<open>open_session p\<close>: the \<^verbatim>\<open>Ort::Session\<close> constructor, \<open>None\<close> when it throws\<close>
  "SamModel_ctor file_good open_session param =
     (if \<not> file_good (models0 param) then Inr SamModel_members
      else if \<not> file_good (models1 param) then Inr SamModel_members
      else case open_session (models0 param) of
        None \<Rightarrow> Inl OrtException
      | Some pre \<Rightarrow>
          let m1 = SamModel_members\<lparr>sessionPre := Some pre\<rparr> in
          if GetInputCount pre \<noteq> 1 \<or> GetOutputCount pre \<noteq> 1 then Inr m1
          else (case open_session (models1 param) of
            None \<Rightarrow> Inl OrtException
          | Some sam \<Rightarrow>
              let m2 = m1\<lparr>sessionSam := Some sam\<rparr> in
              if GetInputCount sam \<noteq> 3 then Inr m2
              else
                let m3 = m2\<lparr>inputShapePre := GetInputShape pre,
                            outputShapePre := GetOutputShape pre\<rparr> in
                if length (inputShapePre m3) \<noteq> 4 \<or> length (outputShapePre m3) \<noteq> 4
                then Inr m3
                else Inr (m3\<lparr>bModelLoaded := True\<rparr>)))"

definition getInputSize :: "SamModel \<Rightarrow> Size result" where
  "getInputSize m =
     (if \<not> bModelLoaded m then Inr (Size 0 0)
      else and_then (vec_at (inputShapePre m) 3) (\<lambda>w.
           and_then (vec_at (inputShapePre m) 2) (\<lambda>h.
           Inr (Size (to_int w) (to_int h)))))"

definition uchar_to_float :: "8 word \<Rightarrow> float" where
  \<comment> \<open>the implicit conversion of a \<^verbatim>\<open>uchar\<close> assigned to a \<^verbatim>\<open>float\<close>\<close>
  "uchar_to_float c = real (unat c)"

definition image_planes :: "8 word Mat \<Rightarrow> int \<Rightarrow> int \<Rightarrow> float list \<Rightarrow> float list result" where
  \<comment> \<open>the two nested loops of loadImage over \<open>i < inputShapePre[2]\<close>, \<open>j < inputShapePre[3]\<close>\<close>
  "image_planes img d2 d3 =
     for_each [0..<nat d2] (\<lambda>i.
       for_each [0..<nat d3] (\<lambda>j buf.
         and_then (at_Vec3b img (int i) (int j) 2) (\<lambda>c2.
         and_then (vec_set buf (int i * d3 + int j) (uchar_to_float c2)) (\<lambda>buf1.
         and_then (at_Vec3b img (int i) (int j) 1) (\<lambda>c1.
         and_then (vec_set buf1 (d2 * d3 + int i * d3 + int j) (uchar_to_float c1)) (\<lambda>buf2.
         and_then (at_Vec3b img (int i) (int j) 0) (\<lambda>c0.
         vec_set buf2 (2 * d2 * d3 + int i * d3 + int j) (uchar_to_float c0))))))))"

definition shape_product :: "int list \<Rightarrow> int result" where
  \<comment> \<open>\<^verbatim>\<open>shape[0] * shape[1] * shape[2] * shape[3]\<close>\<close>
  "shape_product sh =
     and_then (vec_at sh 0) (\<lambda>d0.
     and_then (vec_at sh 1) (\<lambda>d1.
     and_then (vec_at sh 2) (\<lambda>d2.
     and_then (vec_at sh 3) (\<lambda>d3.
     and_then (mul64 d0 d1) (\<lambda>p01.
     and_then (mul64 p01 d2) (\<lambda>p012.
     mul64 p012 d3))))))"

definition inputTensorValuesFloat :: "8 word Mat \<Rightarrow> int list \<Rightarrow> float list result" where
  \<comment> \<open>loadImage, from the \<^verbatim>\<open>resize\<close> to the division loop\<close>
  "inputTensorValuesFloat img sh =
     and_then (shape_product sh) (\<lambda>n.
     and_then (new_vector n) (\<lambda>buf0.
     and_then (vec_at sh 2) (\<lambda>d2.
     and_then (vec_at sh 3) (\<lambda>d3.
     and_then (image_planes img d2 d3 buf0) (\<lambda>buf.
     Inr (map (\<lambda>v. v / 255) buf))))))"

definition as_tensor :: "float list \<Rightarrow> int list \<Rightarrow> Tensor" where
  \<comment> \<open>\<^verbatim>\<open>CreateTensor<float>(memoryInfo, v.data(), v.size(), shape.data(), shape.size())\<close>\<close>
  "as_tensor v sh = \<lparr>t_data = v, t_count = int (length v), t_shape = sh\<rparr>"

definition loadImage :: "8 word Mat \<Rightarrow> SamModel \<Rightarrow> bool result \<times> SamModel" where
  "loadImage img m =
     (case and_then (vec_at (inputShapePre m) 3) (\<lambda>w.
           and_then (vec_at (inputShapePre m) 2) (\<lambda>h. Inr (Size (to_int w) (to_int h)))) of
        Inl e \<Rightarrow> (Inl e, m)
      | Inr sz \<Rightarrow>
          if mat_size img \<noteq> sz then (Inr False, m)
          else if mat_channels img \<noteq> 3 then (Inr False, m)
          else (case inputTensorValuesFloat img (inputShapePre m) of
            Inl e \<Rightarrow> (Inl e, m)
          | Inr values \<Rightarrow>
              (case and_then (shape_product (outputShapePre m)) new_vector of
                 Inl e \<Rightarrow> (Inl e, m)
               | Inr zeros \<Rightarrow>
                   let m' = m\<lparr>outputTensorValuesPre := zeros\<rparr> in
                   (case sessionPre m' of
                      None \<Rightarrow> (Inl NullPointer, m')
                    | Some pre \<Rightarrow>
                        (case RunBound pre [(''image'', as_tensor values (inputShapePre m'))]
                                [(''image_embeddings'', as_tensor zeros (outputShapePre m'))] of
                           TensorRejected \<Rightarrow> (Inl OrtException, m)
                         | RunThrew \<Rightarrow> (Inl OrtException, m')
                         | RunFilled bufs \<Rightarrow>
                             (Inr True,
                              m'\<lparr>outputTensorValuesPre :=
                                    (case bufs of [] \<Rightarrow> zeros | b # _ \<Rightarrow> b)\<rparr>))))))"

text \<open>
  getMask declares three more buffers, which it does not hand to the decoder: the
  mask prior, the has-mask flag and the original image size. Only the last one reads
  the model (elements 2 and 3 of \<^verbatim>\<open>inputShapePre\<close>).
\<close>

definition maskInputValues :: "float list" where
  "maskInputValues = replicate (256 * 256) 0"

definition hasMaskValues :: "float list" where
  "hasMaskValues = [0]"

definition orig_im_size_values :: "SamModel \<Rightarrow> float list result" where
  "orig_im_size_values m =
     and_then (vec_at (inputShapePre m) 2) (\<lambda>h.
     and_then (vec_at (inputShapePre m) 3) (\<lambda>w.
     Inr [of_int h, of_int w]))"

definition inputTensorsSam :: "Point list \<Rightarrow> Point list \<Rightarrow> Rect \<Rightarrow> SamModel \<Rightarrow> Tensor list" where
  \<comment> \<open>the three \<^verbatim>\<open>push_back\<close> on \<^verbatim>\<open>inputTensorsSam\<close>\<close>
  "inputTensorsSam points negativePoints roi m =
     (let (inputPointValues, inputLabelValues) = encode_prompt points negativePoints roi;
          numPoints = to_int (int (length inputLabelValues))
      in [as_tensor (outputTensorValuesPre m) (outputShapePre m),
          \<lparr>t_data = inputPointValues, t_count = to_int (2 * numPoints),
           t_shape = [1, numPoints, 2]\<rparr>,
          \<lparr>t_data = inputLabelValues, t_count = numPoints, t_shape = [1, numPoints]\<rparr>])"

definition prepare_mask :: "8 word Mat \<Rightarrow> SamModel \<Rightarrow> 8 word Mat result" where
  \<comment> \<open>getMask: the output matrix is kept when it is \<^verbatim>\<open>CV_8UC1\<close> of the input size\<close>
  "prepare_mask outputMaskSam m =
     and_then (vec_at (inputShapePre m) 3) (\<lambda>w.
     and_then (vec_at (inputShapePre m) 2) (\<lambda>h.
     if mat_channels outputMaskSam \<noteq> 1 \<or> mat_size outputMaskSam \<noteq> Size (to_int w) (to_int h)
     then new_Mat (to_int h) (to_int w)
     else Inr outputMaskSam))"

definition threshold :: "float \<Rightarrow> 8 word" where
  \<comment> \<open>\<^verbatim>\<open>v > 0 ? 255 : 0\<close>\<close>
  "threshold v = (if v > 0 then 255 else 0)"

definition threshold_mask :: "float Mat \<Rightarrow> 8 word Mat \<Rightarrow> 8 word Mat result" where
  \<comment> \<open>the two nested loops of getMask over the rows and columns of the output matrix\<close>
  "threshold_mask outputMaskImage outputMaskSam =
     and_then
       (for_each [0..<nat (mat_rows outputMaskSam)] (\<lambda>i.
          for_each [0..<nat (mat_cols outputMaskSam)] (\<lambda>j buf.
            and_then (at_elem outputMaskImage (int i) (int j)) (\<lambda>v.
            vec_set buf (int i * mat_cols outputMaskSam + int j)
              (threshold v))))
          (mat_data outputMaskSam))
       (\<lambda>buf. Inr (outputMaskSam\<lparr>mat_data := buf\<rparr>))"

definition postprocess ::
  "(float Mat \<Rightarrow> Size \<Rightarrow> float Mat option) \<Rightarrow> Tensor list \<Rightarrow> 8 word Mat
     \<Rightarrow> (8 word Mat \<times> real) result" where
  \<comment> \<open>getMask after the decoder has returned; \<open>cv_resize src dsize\<close> is
      \<^verbatim>\<open>cv::resize(src, dst, dsize)\<close>, \<open>None\<close> when it throws\<close>
  "postprocess cv_resize outputTensorsSam outputMaskSam =
     and_then (vec_at outputTensorsSam 1) (\<lambda>outputMask.
     and_then (vec_at (t_shape outputMask) 2) (\<lambda>mh.
     and_then (vec_at (t_shape outputMask) 3) (\<lambda>mw.
     let outputMaskImage =
           \<lparr>mat_rows = to_int mh, mat_cols = to_int mw, mat_channels = 1,
            mat_data = t_data outputMask\<rparr>
     in and_then
          (if mat_size outputMaskImage \<noteq> mat_size outputMaskSam
           then (case cv_resize outputMaskImage (mat_size outputMaskSam) of
                   None \<Rightarrow> Inl CvException
                 | Some resized \<Rightarrow> Inr resized)
           else Inr outputMaskImage) (\<lambda>logits.
        and_then (threshold_mask logits outputMaskSam) (\<lambda>mask.
        and_then (vec_at outputTensorsSam 0) (\<lambda>scores.
        and_then (vec_at (t_data scores) 0) (\<lambda>iouValue.
        Inr (mask, iouValue))))))))"

definition getMask ::
  "(float Mat \<Rightarrow> Size \<Rightarrow> float Mat option) \<Rightarrow> Point list \<Rightarrow> Point list \<Rightarrow> Rect
     \<Rightarrow> 8 word Mat \<Rightarrow> SamModel \<Rightarrow> (8 word Mat \<times> real) result" where
  "getMask cv_resize points negativePoints roi outputMaskSam m =
     and_then (orig_im_size_values m) (\<lambda>_.
     and_then (prepare_mask outputMaskSam m) (\<lambda>mask0.
     case sessionSam m of
       None \<Rightarrow> Inl NullPointer
     | Some sam \<Rightarrow>
         (case Run sam (zip inputNamesEdgeSam (inputTensorsSam points negativePoints roi m))
                 outputNamesEdgeSam of
            None \<Rightarrow> Inl OrtException
          | Some outputTensorsSam \<Rightarrow> postprocess cv_resize outputTensorsSam mask0)))"

subsection \<open>The Sam facade\<close>

definition Sam_getMask ::
  "(float Mat \<Rightarrow> Size \<Rightarrow> float Mat option) \<Rightarrow> Point list \<Rightarrow> Point list \<Rightarrow> Rect
     \<Rightarrow> SamModel \<Rightarrow> (8 word Mat \<times> real) result" where
  \<comment> \<open>the overload with a box; it hands getMask a fresh \<^verbatim>\<open>cv::Mat\<close>\<close>
  "Sam_getMask cv_resize points negativePoints roi m =
     getMask cv_resize points negativePoints roi empty_Mat m"

definition Sam_getMask_points ::
  "(float Mat \<Rightarrow> Size \<Rightarrow> float Mat option) \<Rightarrow> Point list \<Rightarrow> Point list
     \<Rightarrow> SamModel \<Rightarrow> (8 word Mat \<times> real) result" where
  "Sam_getMask_points cv_resize points negativePoints m =
     Sam_getMask cv_resize points negativePoints (Rect 0 0 0 0) m"

definition Sam_getMask_point ::
  "(float Mat \<Rightarrow> Size \<Rightarrow> float Mat option) \<Rightarrow> Point \<Rightarrow> SamModel \<Rightarrow> (8 word Mat \<times> real) result" where
  "Sam_getMask_point cv_resize point m = Sam_getMask cv_resize [point] [] (Rect 0 0 0 0) m"

text \<open>
  The states of a session: what the constructor returns, and what loadImage leaves
  behind when it returns or throws (getMask is \<^verbatim>\<open>const\<close>). A state after an
  out-of-range access or a null call is not a state of the program.
\<close>

definition undefined_behaviour :: "fault \<Rightarrow> bool" where
  "undefined_behaviour e \<longleftrightarrow> e = OutOfRange \<or> e = NullPointer \<or> e = SignedOverflow"

inductive session_state :: "SamModel \<Rightarrow> bool" where
  constructed: "SamModel_ctor file_good open_session param = Inr m \<Longrightarrow> session_state m"
| loaded: "session_state m \<Longrightarrow> loadImage img m = (r, m') \<Longrightarrow>
     (\<forall>e. r = Inl e \<longrightarrow> \<not> undefined_behaviour e) \<Longrightarrow> session_state m'"

subsection \<open>Vocabulary of the statements\<close>

definition static_shape :: "int list \<Rightarrow> bool" where
  \<comment> \<open>a declared shape of rank 4 with positive dimensions whose product is an \<^verbatim>\<open>int64_t\<close>\<close>
  "static_shape sh \<longleftrightarrow> length sh = 4 \<and> (\<forall>d\<in>set sh. 0 < d) \<and> prod_list sh < 2 ^ 63"

definition plane_index :: "nat \<Rightarrow> nat \<Rightarrow> nat \<Rightarrow> nat \<Rightarrow> nat \<Rightarrow> nat" where
  \<comment> \<open>position of row \<open>i\<close>, column \<open>j\<close> of plane \<open>ch\<close> in a planar \<open>H \<times> W\<close> tensor\<close>
  "plane_index H W ch i j = ch * H * W + i * W + j"

definition pixel_channel :: "8 word Mat \<Rightarrow> nat \<Rightarrow> nat \<Rightarrow> nat \<Rightarrow> 8 word" where
  \<comment> \<open>channel \<open>c\<close> of the pixel in row \<open>i\<close>, column \<open>j\<close> of an interleaved 3-channel image\<close>
  "pixel_channel img i j c = mat_data img ! ((i * nat (mat_cols img) + j) * 3 + c)"

definition planes_done :: "nat \<Rightarrow> nat \<Rightarrow> nat \<Rightarrow> nat \<Rightarrow> bool" where
  \<comment> \<open>the pixel \<open>(i, j)\<close> has been visited when the loops stand at \<open>(i0, j0)\<close>\<close>
  "planes_done i0 j0 i j \<longleftrightarrow> i < i0 \<or> (i = i0 \<and> j < j0)"

definition planes_inv ::
  "8 word Mat \<Rightarrow> nat \<Rightarrow> nat \<Rightarrow> nat \<Rightarrow> nat \<Rightarrow> nat \<Rightarrow> float list \<Rightarrow> bool" where
  \<comment> \<open>the invariant of the loops of loadImage on the tensor buffer of length \<open>L\<close>\<close>
  "planes_inv img H W L i0 j0 buf \<longleftrightarrow>
     length buf = L
     \<and> (\<forall>x\<in>set buf. 0 \<le> x \<and> x \<le> 255)
     \<and> (\<forall>k. 3 * H * W \<le> k \<and> k < L \<longrightarrow> buf ! k = 0)
     \<and> (\<forall>ch<3. \<forall>i<H. \<forall>j<W. planes_done i0 j0 i j \<longrightarrow>
           buf ! plane_index H W ch i j = uchar_to_float (pixel_channel img i j (2 - ch)))"

definition num_prompt_points :: "Point list \<Rightarrow> Point list \<Rightarrow> Rect \<Rightarrow> nat" where
  \<comment> \<open>the number of encoded points: the points and, for a box, its two corners\<close>
  "num_prompt_points points negativePoints roi =
     length points + length negativePoints + (if rect_empty roi then 0 else 2)"

definition fresh_mask :: "SamModel \<Rightarrow> 8 word Mat" where
  \<comment> \<open>the \<^verbatim>\<open>CV_8UC1\<close> matrix of the size of the model's input that getMask fills\<close>
  "fresh_mask m =
     \<lparr>mat_rows = to_int (inputShapePre m ! 2), mat_cols = to_int (inputShapePre m ! 3),
      mat_channels = 1,
      mat_data = replicate (nat (to_int (inputShapePre m ! 2) * to_int (inputShapePre m ! 3))) 0\<rparr>"

definition mask_inv :: "float Mat \<Rightarrow> nat \<Rightarrow> nat \<Rightarrow> nat \<Rightarrow> nat \<Rightarrow> 8 word list \<Rightarrow> bool" where
  \<comment> \<open>the invariant of the loops of getMask on the buffer of the \<open>R \<times> C\<close> output matrix\<close>
  "mask_inv logits R C i0 j0 buf \<longleftrightarrow>
     length buf = R * C
     \<and> (\<forall>i<R. \<forall>j<C. planes_done i0 j0 i j \<longrightarrow>
           buf ! (i * C + j) = threshold (mat_data logits ! (i * C + j)))"

subsection \<open>A small model pair\<close>

text \<open>
  An encoder for \<open>2 \<times> 2\<close> images with three channels, whose embedding is the first
  two values of its input, and a decoder that answers every prompt with the score \<open>9/10\<close>
  and the \<open>2 \<times> 2\<close> logits \<open>-1, 1, 1, -1\<close>; then variants of the two: an encoder for
  \<open>1 \<times> 1\<close> images, an encoder that declares an input of rank 5, a decoder that counts
  its inputs, and a runtime that checks the element counts of the tensors it is given.
\<close>

definition ex_pre :: Session where
  "ex_pre =
     \<lparr>GetInputCount = 1, GetOutputCount = 1, GetInputShape = [1, 3, 2, 2],
      GetOutputShape = [1, 1, 1, 2],
      Run = (\<lambda>_ _. None),
      RunBound = (\<lambda>ins outs. case ins of [] \<Rightarrow> RunThrew
                                | (name, t) # _ \<Rightarrow> RunFilled [take 2 (t_data t)])\<rparr>"

definition ex_sam :: Session where
  "ex_sam =
     \<lparr>GetInputCount = 3, GetOutputCount = 2, GetInputShape = [1, 1, 1, 2],
      GetOutputShape = [1, 1],
      Run = (\<lambda>ins names.
               Some [\<lparr>t_data = [9 / 10], t_count = 1, t_shape = [1, 1]\<rparr>,
                     \<lparr>t_data = [-1, 1, 1, -1], t_count = 4, t_shape = [1, 1, 2, 2]\<rparr>]),
      RunBound = (\<lambda>_ _. RunThrew)\<rparr>"

definition ex_probe :: Session where
  \<comment> \<open>a decoder whose score is the number of input tensors it was run with\<close>
  "ex_probe =
     ex_sam\<lparr>Run := (\<lambda>ins names.
               Some [\<lparr>t_data = [real (length ins)], t_count = 1, t_shape = [1, 1]\<rparr>,
                     \<lparr>t_data = [-1, 1, 1, -1], t_count = 4, t_shape = [1, 1, 2, 2]\<rparr>])\<rparr>"

definition ex_strict :: Session where
  \<comment> \<open>the decoder \<open>ex_sam\<close> behind a runtime that throws when a tensor has fewer
      elements than its shape asks for\<close>
  "ex_strict =
     ex_sam\<lparr>Run := (\<lambda>ins names.
               if list_all (\<lambda>(name, t). prod_list (t_shape t) \<le> t_count t) ins
               then Run ex_sam ins names else None)\<rparr>"

definition ex_pre5 :: Session where
  "ex_pre5 = ex_pre\<lparr>GetInputShape := [1, 3, 2, 2, 1]\<rparr>"

definition ex_pre1 :: Session where
  "ex_pre1 = ex_pre\<lparr>GetInputShape := [1, 3, 1, 1]\<rparr>"

definition ex_file_good :: "string \<Rightarrow> bool" where
  \<comment> \<open>the model files that exist\<close>
  "ex_file_good p \<longleftrightarrow>
     p = ''pre'' \<or> p = ''pre1'' \<or> p = ''pre5'' \<or> p = ''sam'' \<or> p = ''probe''
     \<or> p = ''strict''"

definition ex_open :: "string \<Rightarrow> Session option" where
  "ex_open p =
     (if p = ''pre'' then Some ex_pre
      else if p = ''pre1'' then Some ex_pre1
      else if p = ''pre5'' then Some ex_pre5
      else if p = ''sam'' then Some ex_sam
      else if p = ''probe'' then Some ex_probe
      else if p = ''strict'' then Some ex_strict
      else None)"

definition ex_model :: SamModel where
  \<comment> \<open>the session constructed from \<open>ex_pre\<close> and \<open>ex_sam\<close>, no image loaded\<close>
  "ex_model =
     \<lparr>sessionPre = Some ex_pre, sessionSam = Some ex_sam, inputShapePre = [1, 3, 2, 2],
      outputShapePre = [1, 1, 1, 2], outputTensorValuesPre = [], bModelLoaded = True\<rparr>"


definition ex_probed :: SamModel where
  \<comment> \<open>the session constructed from \<open>ex_pre\<close> and \<open>ex_probe\<close>, after loadImage of \<open>ex_img\<close>\<close>
  "ex_probed = ex_model\<lparr>sessionSam := Some ex_probe, outputTensorValuesPre := [1, 1 / 85]\<rparr>"

definition ex_small :: SamModel where
  \<comment> \<open>the session constructed from \<open>ex_pre1\<close>, an encoder for \<open>1 \<times> 1\<close> images, and \<open>ex_sam\<close>\<close>
  "ex_small = ex_model\<lparr>sessionPre := Some ex_pre1, inputShapePre := [1, 3, 1, 1]\<rparr>"


definition ex_img :: "8 word Mat" where
  "ex_img =
     \<lparr>mat_rows = 2, mat_cols = 2, mat_channels = 3,
      mat_data = [0, 51, 255, 1, 2, 3, 4, 5, 6, 7, 8, 9]\<rparr>"

definition ex_loaded :: SamModel where
  \<comment> \<open>\<open>ex_model\<close> after loadImage of \<open>ex_img\<close>\<close>
  "ex_loaded = ex_model\<lparr>outputTensorValuesPre := [1, 1 / 85]\<rparr>"

definition ex_resize :: "float Mat \<Rightarrow> Size \<Rightarrow> float Mat option" where
  \<comment> \<open>a resize that fills the destination with the first source value\<close>
  "ex_resize src dsize =
     Some \<lparr>mat_rows = size_height dsize, mat_cols = size_width dsize, mat_channels = 1,
           mat_data = replicate (nat (size_height dsize * size_width dsize))
                        (case mat_data src of [] \<Rightarrow> 0 | v # _ \<Rightarrow> v)\<rparr>"

section \<open>Properties\<close>

lemma fold_push_point:
  "fold (push_point l) ps acc =
     (fst acc @ concat (map point_coords ps), snd acc @ replicate (length ps) l)"
proof (induction ps arbitrary: acc)
  case Nil
  show ?case by simp
next
  case (Cons p ps)
  have "fold (push_point l) (p # ps) acc = fold (push_point l) ps (push_point l p acc)"
    by simp
  also have "\<dots> = (fst (push_point l p acc) @ concat (map point_coords ps),
                     snd (push_point l p acc) @ replicate (length ps) l)"
    by (rule Cons.IH)
  also have "\<dots> = (fst acc @ concat (map point_coords (p # ps)),
                     snd acc @ replicate (length (p # ps)) l)"
    unfolding push_point_def point_coords_def by simp
  finally show ?case .
qed


subsection \<open>Results, vectors and loops\<close>

lemma and_then_Inr [simp]: "and_then (Inr v) f = f v"
  by (simp add: and_then_def)

lemma and_then_Inl [simp]: "and_then (Inl e) f = Inl e"
  by (simp add: and_then_def)

lemma vec_at_in: "0 \<le> i \<Longrightarrow> i < int (length xs) \<Longrightarrow> vec_at xs i = Inr (xs ! nat i)"
  by (simp add: vec_at_def)

lemma vec_set_in: "0 \<le> i \<Longrightarrow> i < int (length xs) \<Longrightarrow> vec_set xs i x = Inr (xs[nat i := x])"
  by (simp add: vec_set_def)

lemma for_each_append:
  "for_each (xs @ ys) body s =
     (case for_each xs body s of Inl e \<Rightarrow> Inl e | Inr s' \<Rightarrow> for_each ys body s')"
  by (induction xs arbitrary: s) (auto split: sum.splits)

lemma for_each_upt_invariant:
  assumes init: "I 0 s"
    and step: "\<And>i t. i < n \<Longrightarrow> I i t \<Longrightarrow> \<exists>t'. body i t = Inr t' \<and> I (Suc i) t'"
  shows "\<exists>s'. for_each [0..<n] body s = Inr s' \<and> I n s'"
proof -
  have "k \<le> n \<Longrightarrow> \<exists>s'. for_each [0..<k] body s = Inr s' \<and> I k s'" for k
  proof (induction k)
    case 0
    show ?case using init by simp
  next
    case (Suc k)
    then obtain t where t: "for_each [0..<k] body s = Inr t" "I k t" by auto
    from Suc.prems have "k < n" by simp
    from step [OF this t(2)] obtain t' where "body k t = Inr t'" "I (Suc k) t'" by auto
    then show ?case using t by (simp add: for_each_append)
  qed
  then show ?thesis by blast
qed

lemma row_index_less:
  fixes H W :: nat
  assumes "i < H" "j < W"
  shows "i * W + j < H * W"
proof -
  have "i * W + j < Suc i * W" using assms(2) by simp
  also have "\<dots> \<le> H * W" using assms(1) by (intro mult_le_mono1) simp
  finally show ?thesis .
qed

lemma quot_rem_unique:
  fixes m :: nat
  assumes "r < m" "r' < m" "a * m + r = b * m + r'"
  shows "a = b \<and> r = r'"
proof -
  have "(a * m + r) div m = a" "(b * m + r') div m = b" using assms(1,2) by simp_all
  then have "a = b" using assms(3) by simp
  then show ?thesis using assms(3) by simp
qed

lemma plane_index_inj:
  fixes H W :: nat
  assumes "i < H" "j < W" "i' < H" "j' < W"
    and "ch * H * W + i * W + j = ch' * H * W + i' * W + j'"
  shows "ch = ch' \<and> i = i' \<and> j = j'"
proof -
  have "ch * (H * W) + (i * W + j) = ch' * (H * W) + (i' * W + j')"
    using assms(5) by (simp add: algebra_simps)
  from quot_rem_unique [OF row_index_less [OF assms(1,2)] row_index_less [OF assms(3,4)] this]
  have "ch = ch'" "i * W + j = i' * W + j'" by simp_all
  from quot_rem_unique [OF assms(2) assms(4) this(2)] \<open>ch = ch'\<close>
  show ?thesis by simp
qed

lemma plane_index_less:
  fixes H W :: nat
  assumes "i < H" "j < W" "ch < 3"
  shows "ch * H * W + i * W + j < 3 * H * W"
proof -
  have a: "ch * (H * W) \<le> 2 * (H * W)" using assms(3) by (intro mult_le_mono1) simp
  have b: "i * W + j < H * W" by (rule row_index_less [OF assms(1,2)])
  have "ch * H * W + i * W + j = ch * (H * W) + (i * W + j)" by simp
  also have "\<dots> < 2 * (H * W) + H * W" using a b by linarith
  also have "\<dots> = 3 * H * W" by simp
  finally show ?thesis .
qed

subsection \<open>The loops of loadImage\<close>

lemma at_Vec3b_in:
  assumes "mat_cols img = int W" "length (mat_data img) = H * W * 3" "i < H" "j < W" "c < 3"
  shows "at_Vec3b img (int i) (int j) (int c) = Inr (pixel_channel img i j c)"
proof -
  have "(i * W + j) * 3 + c < H * W * 3"
    using row_index_less [OF assms(3,4)] assms(5) by simp
  then have lt: "(int i * int W + int j) * 3 + int c < int (length (mat_data img))"
    using assms(2) by (metis of_nat_add of_nat_less_iff of_nat_mult of_nat_numeral)
  have "nat ((int i * int W + int j) * 3 + int c) = (i * W + j) * 3 + c"
    by (simp add: nat_add_distrib nat_mult_distrib)
  then show ?thesis
    using lt by (simp add: at_Vec3b_def pixel_channel_def assms(1) vec_at_def) 
qed


lemma uchar_to_float_range: "0 \<le> uchar_to_float w \<and> uchar_to_float w \<le> 255"
proof -
  have "unat w < 2 ^ 8" using unsigned_less [of w] by simp
  then have "unat w \<le> 255" by simp
  then have "real (unat w) \<le> real 255" by (rule of_nat_mono)
  moreover have "0 \<le> real (unat w)" by (rule of_nat_0_le_iff)
  ultimately show ?thesis unfolding uchar_to_float_def by simp
qed

lemma set_update_bounded:
  assumes "P v" and "\<forall>x\<in>set xs. P x"
  shows "\<forall>x\<in>set (xs[k := v]). P x"
proof
  fix x assume "x \<in> set (xs[k := v])"
  then have "x \<in> insert v (set xs)" using set_update_subset_insert [of xs k v] by blast
  then show "P x" using assms by auto
qed

lemma nth_update3:
  "k < length buf \<Longrightarrow>
   buf[a0 := v0, a1 := v1, a2 := v2] ! k =
     (if k = a2 then v2 else if k = a1 then v1 else if k = a0 then v0 else buf ! k)"
  by (simp add: nth_list_update)

lemma planes_body:
  assumes cols: "mat_cols img = int W" and data: "length (mat_data img) = H * W * 3"
    and L: "3 * H * W \<le> L" and i: "i < H" and j: "j < W"
    and len: "length buf = L"
  shows "and_then (at_Vec3b img (int i) (int j) 2) (\<lambda>c2.
         and_then (vec_set buf (int i * int W + int j) (uchar_to_float c2)) (\<lambda>buf1.
         and_then (at_Vec3b img (int i) (int j) 1) (\<lambda>c1.
         and_then (vec_set buf1 (int H * int W + int i * int W + int j) (uchar_to_float c1)) (\<lambda>buf2.
         and_then (at_Vec3b img (int i) (int j) 0) (\<lambda>c0.
         vec_set buf2 (2 * int H * int W + int i * int W + int j) (uchar_to_float c0))))))
       = Inr (buf[plane_index H W 0 i j := uchar_to_float ((pixel_channel img i j 2)),
                  plane_index H W 1 i j := uchar_to_float ((pixel_channel img i j 1)),
                  plane_index H W 2 i j := uchar_to_float ((pixel_channel img i j 0))])"
proof -
  have r2: "at_Vec3b img (int i) (int j) 2 = Inr (pixel_channel img i j 2)"
    using at_Vec3b_in [OF cols data i j, of 2] by simp
  have r1: "at_Vec3b img (int i) (int j) 1 = Inr (pixel_channel img i j 1)"
    using at_Vec3b_in [OF cols data i j, of 1] by simp
  have r0: "at_Vec3b img (int i) (int j) 0 = Inr (pixel_channel img i j 0)"
    using at_Vec3b_in [OF cols data i j, of 0] by simp
  have lt: "plane_index H W ch i j < L" if "ch < 3" for ch
    using plane_index_less [OF i j that] L by (simp add: plane_index_def)
  have i0: "int i * int W + int j = int (plane_index H W 0 i j)"
    by (simp add: plane_index_def)
  have i1: "int H * int W + int i * int W + int j = int (plane_index H W 1 i j)"
    by (simp add: plane_index_def)
  have i2: "2 * int H * int W + int i * int W + int j = int (plane_index H W 2 i j)"
    by (simp add: plane_index_def)
  show ?thesis
    unfolding r2 r1 r0 i0 i1 i2 and_then_Inr
    using lt [of 0] lt [of 1] lt [of 2] len
    by (simp add: vec_set_def)
qed

lemma planes_step:
  assumes cols: "mat_cols img = int W" and data: "length (mat_data img) = H * W * 3"
    and L: "3 * H * W \<le> L" and i: "i0 < H" and j: "j0 < W"
    and inv: "planes_inv img H W L i0 j0 buf"
  shows "planes_inv img H W L i0 (Suc j0)
           (buf[plane_index H W 0 i0 j0 := uchar_to_float ((pixel_channel img i0 j0 2)),
                plane_index H W 1 i0 j0 := uchar_to_float ((pixel_channel img i0 j0 1)),
                plane_index H W 2 i0 j0 := uchar_to_float ((pixel_channel img i0 j0 0))])"
    (is "planes_inv _ _ _ _ _ _ ?buf'")
proof -
  from inv have len: "length buf = L"
    and bnd: "\<forall>x\<in>set buf. 0 \<le> x \<and> x \<le> 255"
    and zer: "\<forall>k. 3 * H * W \<le> k \<and> k < L \<longrightarrow> buf ! k = 0"
    and don: "\<forall>ch<3. \<forall>i<H. \<forall>j<W. planes_done i0 j0 i j \<longrightarrow>
           buf ! plane_index H W ch i j = uchar_to_float ((pixel_channel img i j (2 - ch)))"
    by (simp_all add: planes_inv_def)
  have lt: "plane_index H W ch i j < L" if "ch < 3" "i < H" "j < W" for ch i j
    using plane_index_less [OF that(2,3,1)] L by (simp add: plane_index_def)
  have lt3: "plane_index H W ch i j < 3 * H * W" if "ch < 3" "i < H" "j < W" for ch i j
    using plane_index_less [OF that(2,3,1)] by (simp add: plane_index_def)
  have inj: "plane_index H W ch i j = plane_index H W ch' i' j' \<longleftrightarrow> ch = ch' \<and> i = i' \<and> j = j'"
    if "i < H" "j < W" "i' < H" "j' < W" for ch i j ch' i' j'
    using plane_index_inj [OF that, of ch ch'] by (auto simp: plane_index_def)
  have len': "length ?buf' = L" using len by simp
  have byte: "0 \<le> uchar_to_float w \<and> uchar_to_float w \<le> 255" for w
    by (rule uchar_to_float_range)
  have bnd': "\<forall>x\<in>set ?buf'. 0 \<le> x \<and> x \<le> 255"
    by (intro set_update_bounded byte bnd)
  have zer': "\<forall>k. 3 * H * W \<le> k \<and> k < L \<longrightarrow> ?buf' ! k = 0"
  proof (intro allI impI)
    fix k :: nat assume k: "3 * H * W \<le> k \<and> k < L"
    then have "k \<noteq> plane_index H W 0 i0 j0" "k \<noteq> plane_index H W 1 i0 j0"
      "k \<noteq> plane_index H W 2 i0 j0"
      using lt3 [of 0 i0 j0] lt3 [of 1 i0 j0] lt3 [of 2 i0 j0] i j by auto
    then show "?buf' ! k = 0" using k zer len by (simp add: nth_update3)
  qed
  have don': "\<forall>ch<3. \<forall>i<H. \<forall>j<W. planes_done i0 (Suc j0) i j \<longrightarrow>
           ?buf' ! plane_index H W ch i j = uchar_to_float ((pixel_channel img i j (2 - ch)))"
  proof (intro allI impI)
    fix ch i' j' :: nat
    assume ch: "ch < 3" and i': "i' < H" and j': "j' < W" and d: "planes_done i0 (Suc j0) i' j'"
    have k: "plane_index H W ch i' j' < length buf" using lt [OF ch i' j'] len by simp
    show "?buf' ! plane_index H W ch i' j' = uchar_to_float ((pixel_channel img i' j' (2 - ch)))"
    proof (cases "i' = i0 \<and> j' = j0")
      case True
      have d01: "plane_index H W 0 i0 j0 \<noteq> plane_index H W 1 i0 j0"
        and d02: "plane_index H W 0 i0 j0 \<noteq> plane_index H W 2 i0 j0"
        and d12: "plane_index H W 1 i0 j0 \<noteq> plane_index H W 2 i0 j0"
        by (simp_all add: inj [OF i j i j])
      have "ch = 0 \<or> ch = 1 \<or> ch = 2" using ch by auto
      then show ?thesis
      proof (elim disjE)
        assume "ch = 0"
        then show ?thesis using True k d01 d02 by (simp add: nth_update3)
      next
        assume "ch = 1"
        then show ?thesis using True k d12 by (simp add: nth_update3)
      next
        assume "ch = 2"
        then show ?thesis using True k by (simp add: nth_update3)
      qed
    next
      case False
      then have old: "planes_done i0 j0 i' j'" using d by (auto simp: planes_done_def)
      have "plane_index H W ch i' j' \<noteq> plane_index H W c i0 j0" for c
        using False inj [OF i' j' i j, of ch c] by auto
      then show ?thesis
        using k don ch i' j' old by (simp add: nth_update3)
    qed
  qed
  show ?thesis
    unfolding planes_inv_def using len' bnd' zer' don' by blast
qed


lemma planes_inv_next_row:
  assumes "planes_inv img H W L i W buf"
  shows "planes_inv img H W L (Suc i) 0 buf"
proof -
  have "planes_done (Suc i) 0 i' j' \<longleftrightarrow> planes_done i W i' j'" if "j' < W" for i' j'
    using that by (auto simp: planes_done_def)
  then show ?thesis using assms unfolding planes_inv_def by simp
qed

lemma image_planes_ok:
  assumes cols: "mat_cols img = int W" and data: "length (mat_data img) = H * W * 3"
    and L: "3 * H * W \<le> L"
  shows "\<exists>buf. image_planes img (int H) (int W) (replicate L 0) = Inr buf
           \<and> planes_inv img H W L H 0 buf"
proof -
  have init: "planes_inv img H W L 0 0 (replicate L 0)"
    by (simp add: planes_inv_def planes_done_def)
  have row: "\<exists>t'. for_each [0..<W] (\<lambda>j buf.
         and_then (at_Vec3b img (int i) (int j) 2) (\<lambda>c2.
         and_then (vec_set buf (int i * int W + int j) (uchar_to_float c2)) (\<lambda>buf1.
         and_then (at_Vec3b img (int i) (int j) 1) (\<lambda>c1.
         and_then (vec_set buf1 (int H * int W + int i * int W + int j) (uchar_to_float c1)) (\<lambda>buf2.
         and_then (at_Vec3b img (int i) (int j) 0) (\<lambda>c0.
         vec_set buf2 (2 * int H * int W + int i * int W + int j) (uchar_to_float c0))))))) t
        = Inr t' \<and> planes_inv img H W L (Suc i) 0 t'"
    if i: "i < H" and t: "planes_inv img H W L i 0 t" for i t
  proof -
    have "\<exists>t'. for_each [0..<W] (\<lambda>j buf.
         and_then (at_Vec3b img (int i) (int j) 2) (\<lambda>c2.
         and_then (vec_set buf (int i * int W + int j) (uchar_to_float c2)) (\<lambda>buf1.
         and_then (at_Vec3b img (int i) (int j) 1) (\<lambda>c1.
         and_then (vec_set buf1 (int H * int W + int i * int W + int j) (uchar_to_float c1)) (\<lambda>buf2.
         and_then (at_Vec3b img (int i) (int j) 0) (\<lambda>c0.
         vec_set buf2 (2 * int H * int W + int i * int W + int j) (uchar_to_float c0))))))) t
        = Inr t' \<and> planes_inv img H W L i W t'"
    proof (rule for_each_upt_invariant [where I = "\<lambda>j. planes_inv img H W L i j"])
      show "planes_inv img H W L i 0 t" by (rule t)
    next
      fix j u
      assume j: "j < W" and u: "planes_inv img H W L i j u"
      from u have len: "length u = L" by (simp add: planes_inv_def)
      show "\<exists>t'. and_then (at_Vec3b img (int i) (int j) 2) (\<lambda>c2.
         and_then (vec_set u (int i * int W + int j) (uchar_to_float c2)) (\<lambda>buf1.
         and_then (at_Vec3b img (int i) (int j) 1) (\<lambda>c1.
         and_then (vec_set buf1 (int H * int W + int i * int W + int j) (uchar_to_float c1)) (\<lambda>buf2.
         and_then (at_Vec3b img (int i) (int j) 0) (\<lambda>c0.
         vec_set buf2 (2 * int H * int W + int i * int W + int j) (uchar_to_float c0))))))
        = Inr t' \<and> planes_inv img H W L i (Suc j) t'"
        unfolding planes_body [OF cols data L i j len]
        using planes_step [OF cols data L i j u] by blast
    qed
    then show ?thesis using planes_inv_next_row by blast
  qed
  show ?thesis
    unfolding image_planes_def nat_int
    by (rule for_each_upt_invariant [where I = "\<lambda>i. planes_inv img H W L i 0", OF init row])
qed


lemma pos_mult_ge:
  fixes x y :: int
  assumes "0 < x" "0 < y"
  shows "x \<le> x * y"
proof -
  have "x * 1 \<le> x * y" using assms by (intro mult_left_mono) simp_all
  then show ?thesis by simp
qed

lemma shape_product_static:
  assumes "static_shape sh"
  shows "shape_product sh = Inr (prod_list sh)"
proof -
  from assms obtain a b c d where sh: "sh = [a, b, c, d]"
    by (auto simp: static_shape_def length_Suc_conv numeral_eq_Suc)
  from assms sh have pos: "0 < a" "0 < b" "0 < c" "0 < d" and tot: "a * b * c * d < 2 ^ 63"
    by (simp_all add: static_shape_def mult.assoc)
  have abc: "0 < a * b * c" using pos by simp
  have ab: "0 < a * b" using pos by simp
  have "a * b * c \<le> a * b * c * d" by (rule pos_mult_ge [OF abc pos(4)])
  moreover have "a * b \<le> a * b * c" by (rule pos_mult_ge [OF ab pos(3)])
  ultimately have r: "int64_range (a * b)" "int64_range (a * b * c)" "int64_range (a * b * c * d)"
    using tot ab abc by (simp_all add: int64_range_def)
  show ?thesis
    using r by (simp add: shape_product_def sh vec_at_def mul64_def mult.assoc)
qed

subsection \<open>Prompt encoding\<close>

lemma encode_prompt_eq:
  "encode_prompt ps ns roi =
     (concat (map point_coords ps) @ concat (map point_coords ns) @
        (if rect_empty roi then []
         else point_coords (Point (rect_x roi) (rect_y roi)) @ point_coords (rect_br roi)),
      replicate (length ps) 1 @ replicate (length ns) 0 @
        (if rect_empty roi then [] else [2, 3]))"
  by (simp add: encode_prompt_def Let_def fold_push_point push_point_def point_coords_def)

lemma rect_empty_default: "rect_empty (Rect 0 0 0 0)"
  by (simp add: rect_empty_def)

text \<open>
  C5, as the code has it. The coordinate array is the positive points, then the
  negative points, then the corners of the box (top-left, bottom-right) when the box is
  not empty, that is when its width and its height are positive (\<^verbatim>\<open>!roi.empty()\<close>); the
  labels are 1, 0, 2 and 3 in the same order. Two positive points, one negative point
  and a box that is not empty give the labels \<open>[1, 1, 0, 2, 3]\<close>. An empty box adds
  neither coordinates nor labels.
\<close>

theorem prompt_order:
  "encode_prompt ps ns roi =
     (concat (map point_coords ps) @ concat (map point_coords ns) @
        (if rect_empty roi then []
         else point_coords (Point (rect_x roi) (rect_y roi)) @ point_coords (rect_br roi)),
      replicate (length ps) 1 @ replicate (length ns) 0 @
        (if rect_empty roi then [] else [2, 3]))
   \<and> (length ps = 2 \<and> length ns = 1 \<and> \<not> rect_empty roi
        \<longrightarrow> snd (encode_prompt ps ns roi) = [1, 1, 0, 2, 3])"
proof
  show "encode_prompt ps ns roi =
     (concat (map point_coords ps) @ concat (map point_coords ns) @
        (if rect_empty roi then []
         else point_coords (Point (rect_x roi) (rect_y roi)) @ point_coords (rect_br roi)),
      replicate (length ps) 1 @ replicate (length ns) 0 @
        (if rect_empty roi then [] else [2, 3]))"
    by (rule encode_prompt_eq)
next
  show "length ps = 2 \<and> length ns = 1 \<and> \<not> rect_empty roi
        \<longrightarrow> snd (encode_prompt ps ns roi) = [1, 1, 0, 2, 3]"
  proof
    assume h: "length ps = 2 \<and> length ns = 1 \<and> \<not> rect_empty roi"
    have "replicate (length ps) (1::real) = [1, 1]"
      using h by (simp add: numeral_2_eq_2)
    moreover have "replicate (length ns) (0::real) = [0]"
      using h by simp
    ultimately show "snd (encode_prompt ps ns roi) = [1, 1, 0, 2, 3]"
      using h by (simp add: encode_prompt_eq)
  qed
qed

theorem prompt_order_witness:
  "length [Point 10 20, Point 30 40] = 2 \<and> length [Point 5 6] = 1
   \<and> \<not> rect_empty (Rect 1 2 3 4)
   \<and> encode_prompt [Point 10 20, Point 30 40] [Point 5 6] (Rect 1 2 3 4)
       = ([10, 20, 30, 40, 5, 6, 1, 2, 4, 6], [1, 1, 0, 2, 3])"
  using prompt_order [of "[Point 10 20, Point 30 40]" "[Point 5 6]" "Rect 1 2 3 4"]
  by (simp add: rect_empty_def rect_br_def point_coords_def to_int_def)

text \<open>
  Two positive points, one negative point and the zero-area box \<open>(5, 7, 0, 0)\<close>: the
  labels are \<open>[1, 1, 0]\<close>, and the corners of the box are not among the coordinates.
\<close>

theorem zero_area_box_labels:
  "encode_prompt [Point 10 20, Point 30 40] [Point 5 6] (Rect 5 7 0 0)
     = ([10, 20, 30, 40, 5, 6], [1, 1, 0])"
  by (simp add: encode_prompt_eq rect_empty_def point_coords_def)

text \<open>
  C4, as the code has it. A box whose width and height are positive adds two
  coordinate entries, its corner \<open>(x, y)\<close> and \<^verbatim>\<open>br()\<close>, with the labels 2 and 3, after
  the points. A box whose width or height is not positive, so every zero-area box, adds
  nothing: the arrays are those of the prompt without a box (the default \<^verbatim>\<open>cv::Rect\<close>).
\<close>

theorem box_encoding:
  "(0 < rect_width roi \<and> 0 < rect_height roi \<longrightarrow>
      encode_prompt ps ns roi =
        (fst (encode_prompt ps ns (Rect 0 0 0 0)) @
           [of_int (rect_x roi), of_int (rect_y roi),
            of_int (pt_x (rect_br roi)), of_int (pt_y (rect_br roi))],
         snd (encode_prompt ps ns (Rect 0 0 0 0)) @ [2, 3]))
   \<and> (rect_width roi \<le> 0 \<or> rect_height roi \<le> 0 \<longrightarrow>
      encode_prompt ps ns roi = encode_prompt ps ns (Rect 0 0 0 0))"
  by (simp add: encode_prompt_eq rect_empty_def point_coords_def)

theorem box_encoding_witness:
  "0 < rect_width (Rect 1 2 3 4) \<and> 0 < rect_height (Rect 1 2 3 4)
   \<and> encode_prompt [Point 7 8] [] (Rect 1 2 3 4) = ([7, 8, 1, 2, 4, 6], [1, 2, 3])
   \<and> (rect_width (Rect 5 7 0 0) \<le> 0 \<or> rect_height (Rect 5 7 0 0) \<le> 0)
   \<and> encode_prompt [Point 7 8] [] (Rect 5 7 0 0) = ([7, 8], [1])"
  using box_encoding [of "Rect 1 2 3 4" "[Point 7 8]" "[]"]
        box_encoding [of "Rect 5 7 0 0" "[Point 7 8]" "[]"]
  by (simp add: encode_prompt_eq rect_empty_def rect_br_def point_coords_def to_int_def)

text \<open>
  The zero-area box \<open>(5, 7, 0, 0)\<close> next to one positive point: no entry with label 2
  or 3 reaches the arrays.
\<close>

theorem zero_area_box_dropped:
  "encode_prompt [Point 7 8] [] (Rect 5 7 0 0) = ([7, 8], [1])"
  by (simp add: encode_prompt_eq rect_empty_def point_coords_def)

subsection \<open>Image loading\<close>

lemma to_int_id: "int_range v \<Longrightarrow> to_int v = v"
  by (simp add: int_range_def to_int_def)

lemma inputTensorValuesFloat_ok:
  assumes sh: "sh = [n, c, int H, int W]" and st: "static_shape sh" and nc: "3 \<le> n * c"
    and cols: "mat_cols img = int W" and data: "length (mat_data img) = H * W * 3"
  shows "\<exists>buf. inputTensorValuesFloat img sh = Inr (map (\<lambda>v. v / 255) buf)
           \<and> planes_inv img H W (nat (n * c * int H * int W)) H 0 buf
           \<and> 3 * H * W \<le> nat (n * c * int H * int W)"
proof -
  have prod: "shape_product sh = Inr (n * c * int H * int W)"
    using shape_product_static [OF st] by (simp add: sh mult.assoc)
  have "3 * (int H * int W) \<le> n * c * (int H * int W)"
    using nc by (intro mult_right_mono) simp_all
  then have ge: "int (3 * H * W) \<le> n * c * int H * int W"
    by (simp add: mult.assoc)
  then have L: "3 * H * W \<le> nat (n * c * int H * int W)"
    by linarith
  have "0 \<le> int (3 * H * W)" by simp
  with ge have nonneg: "\<not> n * c * int H * int W < 0" by linarith
  from image_planes_ok [OF cols data L] obtain buf
    where buf: "image_planes img (int H) (int W) (replicate (nat (n * c * int H * int W)) 0) = Inr buf"
      and inv: "planes_inv img H W (nat (n * c * int H * int W)) H 0 buf"
    by blast
  have "inputTensorValuesFloat img sh = Inr (map (\<lambda>v. v / 255) buf)"
    unfolding inputTensorValuesFloat_def prod and_then_Inr
    using nonneg buf by (simp add: new_vector_def sh vec_at_def)
  then show ?thesis using inv L by blast
qed


lemma planes_inv_scaled:
  assumes "planes_inv img H W L H 0 buf" and L: "3 * H * W \<le> L"
  shows "length (map (\<lambda>v. v / 255) buf) = L"
    and "\<forall>ch<3. \<forall>i<H. \<forall>j<W. map (\<lambda>v. v / 255) buf ! plane_index H W ch i j
           = uchar_to_float (pixel_channel img i j (2 - ch)) / 255"
    and "\<forall>k. 3 * H * W \<le> k \<and> k < L \<longrightarrow> map (\<lambda>v. v / 255) buf ! k = 0"
    and "\<forall>v\<in>set (map (\<lambda>v. v / 255) buf). 0 \<le> v \<and> v \<le> 1"
proof -
  from assms have len: "length buf = L"
    and bnd: "\<forall>x\<in>set buf. 0 \<le> x \<and> x \<le> 255"
    and zer: "\<forall>k. 3 * H * W \<le> k \<and> k < L \<longrightarrow> buf ! k = 0"
    and don: "\<forall>ch<3. \<forall>i<H. \<forall>j<W. planes_done H 0 i j \<longrightarrow>
           buf ! plane_index H W ch i j = uchar_to_float (pixel_channel img i j (2 - ch))"
    by (simp_all add: planes_inv_def)
  show "length (map (\<lambda>v. v / 255) buf) = L" using len by simp
  show "\<forall>k. 3 * H * W \<le> k \<and> k < L \<longrightarrow> map (\<lambda>v. v / 255) buf ! k = 0"
    using zer len by simp
  show "\<forall>v\<in>set (map (\<lambda>v. v / 255) buf). 0 \<le> v \<and> v \<le> 1"
    using bnd by auto
  show "\<forall>ch<3. \<forall>i<H. \<forall>j<W. map (\<lambda>v. v / 255) buf ! plane_index H W ch i j
           = uchar_to_float (pixel_channel img i j (2 - ch)) / 255"
  proof (intro allI impI)
    fix ch i j :: nat
    assume ch: "ch < 3" and i: "i < H" and j: "j < W"
    have "plane_index H W ch i j < 3 * H * W"
      using plane_index_less [OF i j ch] by (simp add: plane_index_def)
    then have lt: "plane_index H W ch i j < length buf"
      using len L by linarith
    have "buf ! plane_index H W ch i j = uchar_to_float (pixel_channel img i j (2 - ch))"
      using don ch i j by (simp add: planes_done_def)
    then show "map (\<lambda>v. v / 255) buf ! plane_index H W ch i j
           = uchar_to_float (pixel_channel img i j (2 - ch)) / 255"
      using lt by simp
  qed
qed


lemma loadImage_accepted:
  assumes "vec_at (inputShapePre m) 3 = Inr w" and "vec_at (inputShapePre m) 2 = Inr h"
    and "mat_size img = Size (to_int w) (to_int h)" and "mat_channels img = 3"
    and "inputTensorValuesFloat img (inputShapePre m) = Inr vals"
    and "and_then (shape_product (outputShapePre m)) new_vector = Inr zeros"
    and "sessionPre m = Some pre"
    and "RunBound pre [(''image'', as_tensor vals (inputShapePre m))]
           [(''image_embeddings'', as_tensor zeros (outputShapePre m))] = RunFilled bufs"
  shows "loadImage img m =
           (Inr True, m\<lparr>outputTensorValuesPre := (case bufs of [] \<Rightarrow> zeros | b # _ \<Rightarrow> b)\<rparr>)"
  using assms by (simp add: loadImage_def)

lemma loadImage_tensor_rejected:
  assumes "vec_at (inputShapePre m) 3 = Inr w" and "vec_at (inputShapePre m) 2 = Inr h"
    and "mat_size img = Size (to_int w) (to_int h)" and "mat_channels img = 3"
    and "inputTensorValuesFloat img (inputShapePre m) = Inr vals"
    and "and_then (shape_product (outputShapePre m)) new_vector = Inr zeros"
    and "sessionPre m = Some pre"
    and "RunBound pre [(''image'', as_tensor vals (inputShapePre m))]
           [(''image_embeddings'', as_tensor zeros (outputShapePre m))] = TensorRejected"
  shows "loadImage img m = (Inl OrtException, m)"
  using assms by (simp add: loadImage_def)

lemma loadImage_run_threw:
  assumes "vec_at (inputShapePre m) 3 = Inr w" and "vec_at (inputShapePre m) 2 = Inr h"
    and "mat_size img = Size (to_int w) (to_int h)" and "mat_channels img = 3"
    and "inputTensorValuesFloat img (inputShapePre m) = Inr vals"
    and "and_then (shape_product (outputShapePre m)) new_vector = Inr zeros"
    and "sessionPre m = Some pre"
    and "RunBound pre [(''image'', as_tensor vals (inputShapePre m))]
           [(''image_embeddings'', as_tensor zeros (outputShapePre m))] = RunThrew"
  shows "loadImage img m = (Inl OrtException, m\<lparr>outputTensorValuesPre := zeros\<rparr>)"
  using assms by (simp add: loadImage_def)

text \<open>
  C8. For a model whose input shape is \<open>[n, c, H, W]\<close> with at least three planes
  (\<open>n * c \<ge> 3\<close>, so \<open>[1, 3, H, W]\<close> in particular) and an accepted image (\<open>H\<close> rows,
  \<open>W\<close> columns, three interleaved channels), the tensor handed to the embedding model
  has the shape of the model's input; plane \<open>ch\<close> holds channel \<open>2 - ch\<close> of the image
  in row-major order, each value the pixel's channel value divided by 255; every value
  lies in \<open>[0, 1]\<close> (whatever lies beyond the third plane is zero). When the run returns
  the one output buffer, loadImage returns true and that buffer is the new cache,
  whatever the cache held before.
\<close>

theorem loadImage_planar_tensor:
  assumes shape: "inputShapePre m = [n, c, int H, int W]"
    and static: "static_shape (inputShapePre m)" and planes: "3 \<le> n * c"
    and range: "int H < 2 ^ 31" "int W < 2 ^ 31"
    and rows: "mat_rows img = int H" and cols: "mat_cols img = int W"
    and channels: "mat_channels img = 3"
    and data: "length (mat_data img) = H * W * 3"
  shows "\<exists>vals.
           inputTensorValuesFloat img (inputShapePre m) = Inr vals
         \<and> length vals = nat (n * c * int H * int W)
         \<and> (\<forall>ch<3. \<forall>i<H. \<forall>j<W.
               vals ! plane_index H W ch i j
                 = uchar_to_float (pixel_channel img i j (2 - ch)) / 255)
         \<and> (\<forall>k. 3 * H * W \<le> k \<and> k < length vals \<longrightarrow> vals ! k = 0)
         \<and> (\<forall>v\<in>set vals. 0 \<le> v \<and> v \<le> 1)
         \<and> (\<forall>pre zeros b.
               sessionPre m = Some pre
               \<and> and_then (shape_product (outputShapePre m)) new_vector = Inr zeros
               \<and> RunBound pre [(''image'', as_tensor vals (inputShapePre m))]
                     [(''image_embeddings'', as_tensor zeros (outputShapePre m))] = RunFilled [b]
               \<longrightarrow> loadImage img m = (Inr True, m\<lparr>outputTensorValuesPre := b\<rparr>))"
proof -
  from inputTensorValuesFloat_ok [OF shape static planes cols data]
  obtain buf where tv: "inputTensorValuesFloat img (inputShapePre m) = Inr (map (\<lambda>v. v / 255) buf)"
    and inv: "planes_inv img H W (nat (n * c * int H * int W)) H 0 buf"
    and L: "3 * H * W \<le> nat (n * c * int H * int W)"
    by blast
  let ?vals = "map (\<lambda>v. v / 255) buf"
  note scaled = planes_inv_scaled [OF inv L]
  have w: "vec_at (inputShapePre m) 3 = Inr (int W)" and h: "vec_at (inputShapePre m) 2 = Inr (int H)"
    by (simp_all add: shape vec_at_def)
  have size: "mat_size img = Size (to_int (int W)) (to_int (int H))"
    using range rows cols by (simp add: mat_size_def to_int_id int_range_def)
  have run: "loadImage img m = (Inr True, m\<lparr>outputTensorValuesPre := b\<rparr>)"
    if "sessionPre m = Some pre"
      and "and_then (shape_product (outputShapePre m)) new_vector = Inr zeros"
      and "RunBound pre [(''image'', as_tensor ?vals (inputShapePre m))]
             [(''image_embeddings'', as_tensor zeros (outputShapePre m))] = RunFilled [b]"
    for pre zeros b
    using loadImage_accepted [OF w h size channels tv that(2) that(1) that(3)]
    by simp
  have len: "length ?vals = nat (n * c * int H * int W)" by (rule scaled(1))
  show ?thesis
  proof (intro exI [of _ ?vals] conjI)
    show "inputTensorValuesFloat img (inputShapePre m) = Inr ?vals"
      by (rule tv)
    show "length ?vals = nat (n * c * int H * int W)" by (rule len)
    show "\<forall>ch<3. \<forall>i<H. \<forall>j<W. ?vals ! plane_index H W ch i j
            = uchar_to_float (pixel_channel img i j (2 - ch)) / 255"
      by (rule scaled(2))
    show "\<forall>k. 3 * H * W \<le> k \<and> k < length ?vals \<longrightarrow> ?vals ! k = 0"
      unfolding len by (rule scaled(3))
    show "\<forall>v\<in>set ?vals. 0 \<le> v \<and> v \<le> 1" by (rule scaled(4))
    show "\<forall>pre zeros b.
               sessionPre m = Some pre
               \<and> and_then (shape_product (outputShapePre m)) new_vector = Inr zeros
               \<and> RunBound pre [(''image'', as_tensor ?vals (inputShapePre m))]
                     [(''image_embeddings'', as_tensor zeros (outputShapePre m))] = RunFilled [b]
               \<longrightarrow> loadImage img m = (Inr True, m\<lparr>outputTensorValuesPre := b\<rparr>)"
      using run by blast
  qed
qed


theorem loadImage_planar_tensor_witness:
  "inputShapePre ex_model = [1, 3, int 2, int 2]
   \<and> static_shape (inputShapePre ex_model) \<and> (3::int) \<le> 1 * 3
   \<and> int 2 < 2 ^ 31
   \<and> mat_rows ex_img = int 2 \<and> mat_cols ex_img = int 2 \<and> mat_channels ex_img = 3
   \<and> length (mat_data ex_img) = 2 * 2 * 3
   \<and> (\<exists>vals.
         inputTensorValuesFloat ex_img (inputShapePre ex_model) = Inr vals
       \<and> length vals = 12
       \<and> vals ! 0 = 1 \<and> vals ! 11 = 7 / 255
       \<and> (\<forall>v\<in>set vals. 0 \<le> v \<and> v \<le> 1)
       \<and> loadImage ex_img ex_model
           = (Inr True, ex_model\<lparr>outputTensorValuesPre := take 2 vals\<rparr>))"
proof -
  have h1: "inputShapePre ex_model = [1, 3, int 2, int 2]" by (simp add: ex_model_def)
  have h2: "static_shape (inputShapePre ex_model)" by (simp add: ex_model_def static_shape_def)
  have h3: "(3::int) \<le> 1 * 3" by simp
  have h4: "int 2 < 2 ^ 31" by simp
  have h5: "mat_rows ex_img = int 2" and h6: "mat_cols ex_img = int 2"
    and h7: "mat_channels ex_img = 3" and h8: "length (mat_data ex_img) = 2 * 2 * 3"
    by (simp_all add: ex_img_def)
  from loadImage_planar_tensor [OF h1 h2 h3 h4 h4 h5 h6 h7 h8]
  obtain vs where v1: "inputTensorValuesFloat ex_img (inputShapePre ex_model) = Inr vs"
    and v2: "length vs = nat (1 * 3 * int 2 * int 2)"
    and v3: "\<forall>ch<3. \<forall>i<2. \<forall>j<2. vs ! plane_index 2 2 ch i j
               = uchar_to_float (pixel_channel ex_img i j (2 - ch)) / 255"
    and v5: "\<forall>v\<in>set vs. 0 \<le> v \<and> v \<le> 1"
    and v6: "\<forall>pre zeros b.
               sessionPre ex_model = Some pre
               \<and> and_then (shape_product (outputShapePre ex_model)) new_vector = Inr zeros
               \<and> RunBound pre [(''image'', as_tensor vs (inputShapePre ex_model))]
                     [(''image_embeddings'', as_tensor zeros (outputShapePre ex_model))] = RunFilled [b]
               \<longrightarrow> loadImage ex_img ex_model = (Inr True, ex_model\<lparr>outputTensorValuesPre := b\<rparr>)"
    by blast
  have len: "length vs = 12" using v2 by simp
  have "vs ! plane_index 2 2 0 0 0 = uchar_to_float (pixel_channel ex_img 0 0 (2 - 0)) / 255"
    using v3 by simp
  then have first: "vs ! 0 = 1"
    by (simp add: plane_index_def pixel_channel_def ex_img_def uchar_to_float_def)
  have "vs ! plane_index 2 2 2 1 1 = uchar_to_float (pixel_channel ex_img 1 1 (2 - 2)) / 255"
    using v3 by simp
  then have last: "vs ! 11 = 7 / 255"
    by (simp add: plane_index_def pixel_channel_def ex_img_def uchar_to_float_def)
  have pre: "sessionPre ex_model = Some ex_pre" by (simp add: ex_model_def)
  have zeros: "and_then (shape_product (outputShapePre ex_model)) new_vector = Inr [0, 0]"
    by (simp add: ex_model_def shape_product_def vec_at_def mul64_def int64_range_def
          new_vector_def numeral_2_eq_2)
  have run: "RunBound ex_pre [(''image'', as_tensor vs (inputShapePre ex_model))]
               [(''image_embeddings'', as_tensor [0, 0] (outputShapePre ex_model))]
             = RunFilled [take 2 vs]"
    by (simp add: ex_pre_def as_tensor_def)
  have load: "loadImage ex_img ex_model
                = (Inr True, ex_model\<lparr>outputTensorValuesPre := take 2 vs\<rparr>)"
    using v6 pre zeros run by blast
  show ?thesis
    using h1 h2 h3 h4 h5 h6 h7 h8 v1 len first last v5 load by blast
qed

subsection \<open>Session states, validation and the cache\<close>

lemma ctor_loaded:
  assumes "SamModel_ctor file_good open_session param = Inr m" and "bModelLoaded m"
  shows "\<exists>pre sam. sessionPre m = Some pre \<and> sessionSam m = Some sam
           \<and> inputShapePre m = GetInputShape pre \<and> outputShapePre m = GetOutputShape pre
           \<and> length (inputShapePre m) = 4 \<and> length (outputShapePre m) = 4
           \<and> outputTensorValuesPre m = []"
  using assms
  by (auto simp: SamModel_ctor_def SamModel_members_def Let_def split: if_splits option.splits)

lemma loadImage_frame:
  assumes "loadImage img m = (r, m')"
  shows "sessionPre m' = sessionPre m \<and> sessionSam m' = sessionSam m
         \<and> inputShapePre m' = inputShapePre m \<and> outputShapePre m' = outputShapePre m
         \<and> bModelLoaded m' = bModelLoaded m"
  using assms unfolding loadImage_def Let_def
  by (auto split: sum.splits if_splits option.splits bound_run.splits)

lemma session_state_loaded:
  assumes "session_state m"
  shows "bModelLoaded m \<longrightarrow>
         (\<exists>pre sam. sessionPre m = Some pre \<and> sessionSam m = Some sam
           \<and> inputShapePre m = GetInputShape pre \<and> outputShapePre m = GetOutputShape pre
           \<and> length (inputShapePre m) = 4 \<and> length (outputShapePre m) = 4)"
  using assms
proof (induction rule: session_state.induct)
  case (constructed file_good open_session param m)
  then show ?case using ctor_loaded by blast
next
  case (loaded m img r m')
  from loadImage_frame [OF loaded(2)] show ?case using loaded.IH by simp
qed

lemma loadImage_rejects:
  assumes "4 \<le> length (inputShapePre m)"
    and "mat_size img \<noteq> Size (to_int (inputShapePre m ! 3)) (to_int (inputShapePre m ! 2))
         \<or> mat_channels img \<noteq> 3"
  shows "loadImage img m = (Inr False, m)"
  using assms by (auto simp: loadImage_def vec_at_def)

lemma loadImage_False:
  assumes "4 \<le> length (inputShapePre m)" and "fst (loadImage img m) = Inr False"
  shows "mat_size img \<noteq> Size (to_int (inputShapePre m ! 3)) (to_int (inputShapePre m ! 2))
         \<or> mat_channels img \<noteq> 3"
  using assms unfolding loadImage_def Let_def
  by (auto simp: vec_at_def split: sum.splits if_splits option.splits bound_run.splits)

lemma loadImage_True:
  assumes "fst (loadImage img m) = Inr True"
  shows "4 \<le> length (inputShapePre m)
         \<and> mat_size img = Size (to_int (inputShapePre m ! 3)) (to_int (inputShapePre m ! 2))
         \<and> mat_channels img = 3"
  using assms unfolding loadImage_def Let_def
  by (auto simp: vec_at_def split: sum.splits if_splits option.splits bound_run.splits)


lemma ex_ctor: "SamModel_ctor ex_file_good ex_open (Parameter ''pre'' ''sam'' 1) = Inr ex_model"
  by (simp add: SamModel_ctor_def ex_file_good_def ex_open_def ex_model_def SamModel_members_def
        ex_pre_def ex_sam_def)

lemma ex_model_state: "session_state ex_model"
  by (rule session_state.constructed [OF ex_ctor])

lemma ex_small_state: "session_state ex_small"
proof -
  have "SamModel_ctor ex_file_good ex_open (Parameter ''pre1'' ''sam'' 1) = Inr ex_small"
    by (simp add: SamModel_ctor_def ex_file_good_def ex_open_def ex_small_def ex_model_def
          SamModel_members_def ex_pre1_def ex_pre_def ex_sam_def)
  then show ?thesis by (rule session_state.constructed)
qed


lemma ex_tensor:
  "inputTensorValuesFloat ex_img [1, 3, 2, 2] =
     Inr [1, 1 / 85, 2 / 85, 3 / 85, 1 / 5, 2 / 255, 1 / 51, 8 / 255, 0, 1 / 255, 4 / 255,
          7 / 255]"
  by code_simp

lemma ex_load: "loadImage ex_img ex_model = (Inr True, ex_loaded)"
proof -
  have w: "vec_at (inputShapePre ex_model) 3 = Inr 2"
    and h: "vec_at (inputShapePre ex_model) 2 = Inr 2"
    by (simp_all add: ex_model_def vec_at_def)
  have size: "mat_size ex_img = Size (to_int 2) (to_int 2)"
    by (simp add: mat_size_def ex_img_def to_int_def)
  have ch: "mat_channels ex_img = 3" by (simp add: ex_img_def)
  have tensor: "inputTensorValuesFloat ex_img (inputShapePre ex_model) =
     Inr [1, 1 / 85, 2 / 85, 3 / 85, 1 / 5, 2 / 255, 1 / 51, 8 / 255, 0, 1 / 255, 4 / 255,
          7 / 255]"
    using ex_tensor by (simp add: ex_model_def)
  have zeros: "and_then (shape_product (outputShapePre ex_model)) new_vector = Inr [0, 0]"
    by (simp add: ex_model_def shape_product_def vec_at_def mul64_def int64_range_def
          new_vector_def numeral_2_eq_2)
  have pre: "sessionPre ex_model = Some ex_pre" by (simp add: ex_model_def)
  have run: "RunBound ex_pre
       [(''image'', as_tensor [1, 1 / 85, 2 / 85, 3 / 85, 1 / 5, 2 / 255, 1 / 51, 8 / 255, 0,
                               1 / 255, 4 / 255, 7 / 255] (inputShapePre ex_model))]
       [(''image_embeddings'', as_tensor [0, 0] (outputShapePre ex_model))] = RunFilled [[1, 1 / 85]]"
    by (simp add: ex_pre_def as_tensor_def)
  show ?thesis
    using loadImage_accepted [OF w h size ch tensor zeros pre run]
    by (simp add: ex_loaded_def)
qed

lemma getInputSize_loaded:
  assumes "bModelLoaded m" and "length (inputShapePre m) = 4"
  shows "getInputSize m = Inr (Size (to_int (inputShapePre m ! 3)) (to_int (inputShapePre m ! 2)))"
  using assms by (simp add: getInputSize_def vec_at_def)

text \<open>
  C7. In every state of a session whose models were loaded, getInputSize returns the
  width and the height read from elements 3 and 2 of the embedding model's declared
  input shape, converted to \<^verbatim>\<open>int\<close> (so the declared values themselves when they are
  in the range of \<^verbatim>\<open>int\<close>); loadImage returns true only for an image of that size with
  three channels, and returns false, leaving the state alone, for every other image.
\<close>

theorem input_size_contract:
  assumes "session_state m" and "bModelLoaded m"
  shows "\<exists>pre. sessionPre m = Some pre \<and> length (GetInputShape pre) = 4
         \<and> getInputSize m
             = Inr (Size (to_int (GetInputShape pre ! 3)) (to_int (GetInputShape pre ! 2)))
         \<and> (int_range (GetInputShape pre ! 3) \<and> int_range (GetInputShape pre ! 2) \<longrightarrow>
               getInputSize m = Inr (Size (GetInputShape pre ! 3) (GetInputShape pre ! 2)))
         \<and> (\<forall>img.
               (fst (loadImage img m) = Inr True \<longrightarrow>
                  Inr (mat_size img) = getInputSize m \<and> mat_channels img = 3)
             \<and> (Inr (mat_size img) \<noteq> getInputSize m \<or> mat_channels img \<noteq> 3 \<longrightarrow>
                  loadImage img m = (Inr False, m))
             \<and> (fst (loadImage img m) = Inr False \<longrightarrow>
                  Inr (mat_size img) \<noteq> getInputSize m \<or> mat_channels img \<noteq> 3))"
proof -
  from session_state_loaded [OF assms(1)] assms(2) obtain pre
    where pre: "sessionPre m = Some pre" and sh: "inputShapePre m = GetInputShape pre"
      and len: "length (inputShapePre m) = 4"
    by blast
  have size: "getInputSize m
      = Inr (Size (to_int (inputShapePre m ! 3)) (to_int (inputShapePre m ! 2)))"
    by (rule getInputSize_loaded [OF assms(2) len])
  have len4: "4 \<le> length (inputShapePre m)" using len by simp
  have acc: "Inr (mat_size img) = getInputSize m \<and> mat_channels img = 3"
    if "fst (loadImage img m) = Inr True" for img
    using loadImage_True [OF that] size by simp
  have rej: "loadImage img m = (Inr False, m)"
    if "Inr (mat_size img) \<noteq> getInputSize m \<or> mat_channels img \<noteq> 3" for img
    using that size by (intro loadImage_rejects [OF len4]) auto
  have rej': "Inr (mat_size img) \<noteq> getInputSize m \<or> mat_channels img \<noteq> 3"
    if "fst (loadImage img m) = Inr False" for img
    using loadImage_False [OF len4 that] size by auto
  have exact: "getInputSize m = Inr (Size (GetInputShape pre ! 3) (GetInputShape pre ! 2))"
    if "int_range (GetInputShape pre ! 3) \<and> int_range (GetInputShape pre ! 2)"
    using that size by (simp add: sh to_int_id)
  show ?thesis
    using pre len size exact acc rej rej' unfolding sh by blast
qed

theorem input_size_contract_witness:
  "session_state ex_model \<and> bModelLoaded ex_model
   \<and> getInputSize ex_model = Inr (Size 2 2)
   \<and> fst (loadImage ex_img ex_model) = Inr True
   \<and> loadImage (ex_img\<lparr>mat_cols := 3\<rparr>) ex_model = (Inr False, ex_model)
   \<and> loadImage (ex_img\<lparr>mat_channels := 4\<rparr>) ex_model = (Inr False, ex_model)"
proof -
  have loaded: "bModelLoaded ex_model" by (simp add: ex_model_def)
  from input_size_contract [OF ex_model_state loaded] obtain pre
    where pre: "sessionPre ex_model = Some pre"
      and size: "getInputSize ex_model
             = Inr (Size (to_int (GetInputShape pre ! 3)) (to_int (GetInputShape pre ! 2)))"
      and rej: "\<And>img. Inr (mat_size img) \<noteq> getInputSize ex_model \<or> mat_channels img \<noteq> 3
                  \<Longrightarrow> loadImage img ex_model = (Inr False, ex_model)"
    by blast
  from pre have "pre = ex_pre" by (simp add: ex_model_def)
  with size have two: "getInputSize ex_model = Inr (Size 2 2)"
    by (simp add: ex_pre_def to_int_def)
  have "loadImage (ex_img\<lparr>mat_cols := 3\<rparr>) ex_model = (Inr False, ex_model)"
    by (rule rej) (simp add: two mat_size_def ex_img_def)
  moreover have "loadImage (ex_img\<lparr>mat_channels := 4\<rparr>) ex_model = (Inr False, ex_model)"
    by (rule rej) (simp add: ex_img_def)
  ultimately show ?thesis
    using ex_model_state loaded two ex_load by simp
qed

text \<open>
  C3. After a loadImage that returned true, a loadImage of an image with the wrong size
  or the wrong number of channels returns false and leaves the session as it was: the
  cache is the one of the first image, the first tensor handed to the decoder is
  built from it, and getMask answers as it did before the failed call.
\<close>

theorem failed_load_keeps_embedding:
  assumes "loadImage a m0 = (Inr True, m)"
    and "mat_size b \<noteq> Size (to_int (inputShapePre m ! 3)) (to_int (inputShapePre m ! 2))
         \<or> mat_channels b \<noteq> 3"
  shows "loadImage b m = (Inr False, m)
         \<and> outputTensorValuesPre (snd (loadImage b m)) = outputTensorValuesPre m
         \<and> inputTensorsSam points negativePoints roi (snd (loadImage b m)) ! 0
             = as_tensor (outputTensorValuesPre m) (outputShapePre m)
         \<and> getMask cv_resize points negativePoints roi outputMaskSam (snd (loadImage b m))
             = getMask cv_resize points negativePoints roi outputMaskSam m"
proof -
  have "fst (loadImage a m0) = Inr True" using assms(1) by simp
  then have "4 \<le> length (inputShapePre m0)" using loadImage_True by blast
  moreover have "inputShapePre m = inputShapePre m0"
    using loadImage_frame [OF assms(1)] by simp
  ultimately have len: "4 \<le> length (inputShapePre m)" by simp
  have rej: "loadImage b m = (Inr False, m)"
    by (rule loadImage_rejects [OF len assms(2)])
  have "inputTensorsSam points negativePoints roi m ! 0
          = as_tensor (outputTensorValuesPre m) (outputShapePre m)"
    by (simp add: inputTensorsSam_def Let_def split: prod.splits)
  then show ?thesis using rej by simp
qed

theorem failed_load_keeps_embedding_witness:
  "loadImage ex_img ex_model = (Inr True, ex_loaded)
   \<and> mat_size (ex_img\<lparr>mat_cols := 3\<rparr>)
         \<noteq> Size (to_int (inputShapePre ex_loaded ! 3)) (to_int (inputShapePre ex_loaded ! 2))
   \<and> loadImage (ex_img\<lparr>mat_cols := 3\<rparr>) ex_loaded = (Inr False, ex_loaded)
   \<and> outputTensorValuesPre (snd (loadImage (ex_img\<lparr>mat_cols := 3\<rparr>) ex_loaded)) = [1, 1 / 85]"
proof -
  have size: "mat_size (ex_img\<lparr>mat_cols := 3\<rparr>)
         \<noteq> Size (to_int (inputShapePre ex_loaded ! 3)) (to_int (inputShapePre ex_loaded ! 2))"
    by (simp add: mat_size_def ex_img_def ex_loaded_def ex_model_def to_int_def)
  then have wrong: "mat_size (ex_img\<lparr>mat_cols := 3\<rparr>)
         \<noteq> Size (to_int (inputShapePre ex_loaded ! 3)) (to_int (inputShapePre ex_loaded ! 2))
       \<or> mat_channels (ex_img\<lparr>mat_cols := 3\<rparr>) \<noteq> 3"
    by (rule disjI1)
  from failed_load_keeps_embedding [OF ex_load wrong]
  have "loadImage (ex_img\<lparr>mat_cols := 3\<rparr>) ex_loaded = (Inr False, ex_loaded)"
    and "outputTensorValuesPre (snd (loadImage (ex_img\<lparr>mat_cols := 3\<rparr>) ex_loaded))
           = outputTensorValuesPre ex_loaded"
    by blast+
  then show ?thesis using ex_load size by (simp add: ex_loaded_def)
qed

subsection \<open>Mask decoding and post-processing\<close>

lemma vec_at_nat: "k < length xs \<Longrightarrow> vec_at xs (int k) = Inr (xs ! k)"
  by (simp add: vec_at_def)

lemma vec_set_nat: "k < length xs \<Longrightarrow> vec_set xs (int k) x = Inr (xs[k := x])"
  by (simp add: vec_set_def)

lemma mask_step:
  assumes lcols: "mat_cols logits = int C" and ldata: "R * C \<le> length (mat_data logits)"
    and i: "i0 < R" and j: "j0 < C" and inv: "mask_inv logits R C i0 j0 buf"
  shows "and_then (at_elem logits (int i0) (int j0)) (\<lambda>v.
           vec_set buf (int i0 * int C + int j0) (threshold v))
         = Inr (buf[i0 * C + j0 := threshold (mat_data logits ! (i0 * C + j0))])"
    and "mask_inv logits R C i0 (Suc j0)
           (buf[i0 * C + j0 := threshold (mat_data logits ! (i0 * C + j0))])"
proof -
  from inv have len: "length buf = R * C"
    and don: "\<forall>i<R. \<forall>j<C. planes_done i0 j0 i j \<longrightarrow>
           buf ! (i * C + j) = threshold (mat_data logits ! (i * C + j))"
    by (simp_all add: mask_inv_def)
  have lt: "i0 * C + j0 < R * C" by (rule row_index_less [OF i j])
  have idx: "int i0 * int C + int j0 = int (i0 * C + j0)" by simp
  have "vec_at (mat_data logits) (int (i0 * C + j0)) = Inr (mat_data logits ! (i0 * C + j0))"
    by (rule vec_at_nat) (use lt ldata in linarith)
  then have rd: "at_elem logits (int i0) (int j0) = Inr (mat_data logits ! (i0 * C + j0))"
    unfolding at_elem_def lcols idx .
  have wr: "vec_set buf (int (i0 * C + j0)) v = Inr (buf[i0 * C + j0 := v])" for v
    by (rule vec_set_nat) (use lt len in linarith)
  show "and_then (at_elem logits (int i0) (int j0)) (\<lambda>v.
           vec_set buf (int i0 * int C + int j0) (threshold v))
         = Inr (buf[i0 * C + j0 := threshold (mat_data logits ! (i0 * C + j0))])"
    unfolding rd and_then_Inr idx wr ..
  have "buf[i0 * C + j0 := threshold (mat_data logits ! (i0 * C + j0))] ! (i * C + j')
          = threshold (mat_data logits ! (i * C + j'))"
    if i': "i < R" and j': "j' < C" and d: "planes_done i0 (Suc j0) i j'" for i j'
  proof (cases "i = i0 \<and> j' = j0")
    case True
    then show ?thesis using lt len by simp
  next
    case False
    then have old: "planes_done i0 j0 i j'" using d by (auto simp: planes_done_def)
    have "i * C + j' \<noteq> i0 * C + j0"
      using quot_rem_unique [OF j' j, of i i0] False by auto
    then show ?thesis using don i' j' old by simp
  qed
  then show "mask_inv logits R C i0 (Suc j0)
           (buf[i0 * C + j0 := threshold (mat_data logits ! (i0 * C + j0))])"
    using len by (simp add: mask_inv_def)
qed

lemma mask_inv_next_row:
  assumes "mask_inv logits R C i C buf"
  shows "mask_inv logits R C (Suc i) 0 buf"
proof -
  have "planes_done (Suc i) 0 i' j' \<longleftrightarrow> planes_done i C i' j'" if "j' < C" for i' j'
    using that by (auto simp: planes_done_def)
  then show ?thesis using assms unfolding mask_inv_def by simp
qed

lemma threshold_mask_ok:
  assumes rows: "mat_rows out = int R" and cols: "mat_cols out = int C"
    and data: "length (mat_data out) = R * C"
    and lcols: "mat_cols logits = int C" and ldata: "R * C \<le> length (mat_data logits)"
  shows "\<exists>buf. threshold_mask logits out = Inr (out\<lparr>mat_data := buf\<rparr>)
           \<and> mask_inv logits R C R 0 buf"
proof -
  have init: "mask_inv logits R C 0 0 (mat_data out)"
    by (simp add: mask_inv_def planes_done_def data)
  have row: "\<exists>t'. for_each [0..<C] (\<lambda>j buf.
            and_then (at_elem logits (int i) (int j)) (\<lambda>v.
            vec_set buf (int i * int C + int j) (threshold v))) t = Inr t'
          \<and> mask_inv logits R C (Suc i) 0 t'"
    if i: "i < R" and t: "mask_inv logits R C i 0 t" for i t
  proof -
    have "\<exists>t'. for_each [0..<C] (\<lambda>j buf.
            and_then (at_elem logits (int i) (int j)) (\<lambda>v.
            vec_set buf (int i * int C + int j) (threshold v))) t = Inr t'
          \<and> mask_inv logits R C i C t'"
    proof (rule for_each_upt_invariant [where I = "\<lambda>j. mask_inv logits R C i j"])
      show "mask_inv logits R C i 0 t" by (rule t)
    next
      fix j u
      assume j: "j < C" and u: "mask_inv logits R C i j u"
      show "\<exists>t'. and_then (at_elem logits (int i) (int j)) (\<lambda>v.
            vec_set u (int i * int C + int j) (threshold v)) = Inr t'
          \<and> mask_inv logits R C i (Suc j) t'"
        using mask_step [OF lcols ldata i j u] by blast
    qed
    then show ?thesis using mask_inv_next_row by blast
  qed
  have "\<exists>buf. for_each [0..<R] (\<lambda>i. for_each [0..<C] (\<lambda>j buf.
            and_then (at_elem logits (int i) (int j)) (\<lambda>v.
            vec_set buf (int i * int C + int j) (threshold v)))) (mat_data out) = Inr buf
          \<and> mask_inv logits R C R 0 buf"
    by (rule for_each_upt_invariant [where I = "\<lambda>i. mask_inv logits R C i 0", OF init row])
  then show ?thesis
    unfolding threshold_mask_def rows cols nat_int by auto
qed

lemma mask_inv_pixels:
  assumes "mask_inv logits R C R 0 buf"
  shows "\<forall>i<R. \<forall>j<C. buf ! (i * C + j) = threshold (mat_data logits ! (i * C + j))"
    and "\<forall>p\<in>set buf. p = 0 \<or> p = 255"
proof -
  from assms have len: "length buf = R * C"
    and don: "\<forall>i<R. \<forall>j<C. planes_done R 0 i j \<longrightarrow>
           buf ! (i * C + j) = threshold (mat_data logits ! (i * C + j))"
    by (simp_all add: mask_inv_def)
  show px: "\<forall>i<R. \<forall>j<C. buf ! (i * C + j) = threshold (mat_data logits ! (i * C + j))"
    using don by (simp add: planes_done_def)
  show "\<forall>p\<in>set buf. p = 0 \<or> p = 255"
  proof
    fix p assume "p \<in> set buf"
    then obtain k where k: "k < R * C" and p: "p = buf ! k"
      using len by (auto simp: in_set_conv_nth)
    from k have C: "0 < C" by (cases C) simp_all
    have i: "k div C < R" using k by (simp add: less_mult_imp_div_less)
    have j: "k mod C < C" using C by simp
    have "buf ! (k div C * C + k mod C) = threshold (mat_data logits ! (k div C * C + k mod C))"
      using px i j by blast
    then have "p = threshold (mat_data logits ! k)" using p by simp
    then show "p = 0 \<or> p = 255" by (simp add: threshold_def)
  qed
qed


lemma prepare_mask_fresh:
  assumes shape: "inputShapePre m = [n, c, int H, int W]"
    and range: "int H < 2 ^ 31" "int W < 2 ^ 31"
  shows "prepare_mask empty_Mat m =
           Inr \<lparr>mat_rows = int H, mat_cols = int W, mat_channels = 1,
                mat_data = replicate (H * W) 0\<rparr>"
proof -
  have w: "to_int (int W) = int W" and h: "to_int (int H) = int H"
    using range by (simp_all add: to_int_id int_range_def)
  have n: "nat (int H * int W) = H * W" by (simp add: nat_mult_distrib)
  show ?thesis
  proof (cases "W = 0 \<and> H = 0")
    case True
    then show ?thesis
      by (simp add: prepare_mask_def shape vec_at_def to_int_def empty_Mat_def mat_size_def)
  next
    case False
    then have "mat_size empty_Mat \<noteq> Size (int W) (int H)"
      by (auto simp: mat_size_def empty_Mat_def)
    then show ?thesis
      by (simp add: prepare_mask_def shape vec_at_def w h new_Mat_def n)
  qed
qed

lemma getMask_run:
  assumes "4 \<le> length (inputShapePre m)" and "sessionSam m = Some sam"
  shows "getMask cv_resize points negativePoints roi outputMaskSam m =
           and_then (prepare_mask outputMaskSam m) (\<lambda>mask0.
             case Run sam (zip inputNamesEdgeSam (inputTensorsSam points negativePoints roi m))
                    outputNamesEdgeSam of
               None \<Rightarrow> Inl OrtException
             | Some outputTensorsSam \<Rightarrow> postprocess cv_resize outputTensorsSam mask0)"
  using assms by (simp add: getMask_def orig_im_size_values_def vec_at_def)

lemma postprocess_ok:
  assumes mshape: "t_shape masks = [b, k, mh, mw]" and score: "t_data scores = iou # rest"
    and rows: "mat_rows out = int R" and cols: "mat_cols out = int C"
    and data: "length (mat_data out) = R * C"
    and logits: "(mat_size \<lparr>mat_rows = to_int mh, mat_cols = to_int mw, mat_channels = 1,
                             mat_data = t_data masks\<rparr> = Size (int C) (int R)
                  \<and> logits = \<lparr>mat_rows = to_int mh, mat_cols = to_int mw, mat_channels = 1,
                               mat_data = t_data masks\<rparr>)
               \<or> (mat_size \<lparr>mat_rows = to_int mh, mat_cols = to_int mw, mat_channels = 1,
                             mat_data = t_data masks\<rparr> \<noteq> Size (int C) (int R)
                  \<and> cv_resize \<lparr>mat_rows = to_int mh, mat_cols = to_int mw, mat_channels = 1,
                                mat_data = t_data masks\<rparr> (Size (int C) (int R)) = Some logits)"
    and lcols: "mat_cols logits = int C" and ldata: "R * C \<le> length (mat_data logits)"
  shows "\<exists>buf. postprocess cv_resize [scores, masks] out = Inr (out\<lparr>mat_data := buf\<rparr>, iou)
           \<and> mask_inv logits R C R 0 buf"
proof -
  from threshold_mask_ok [OF rows cols data lcols ldata] obtain buf
    where thr: "threshold_mask logits out = Inr (out\<lparr>mat_data := buf\<rparr>)"
      and inv: "mask_inv logits R C R 0 buf"
    by blast
  have size: "mat_size out = Size (int C) (int R)" by (simp add: mat_size_def rows cols)
  have "postprocess cv_resize [scores, masks] out = Inr (out\<lparr>mat_data := buf\<rparr>, iou)"
    using logits thr
    by (auto simp: postprocess_def vec_at_def mshape score size Let_def)
  then show ?thesis using inv by blast
qed


text \<open>
  C6. Let the decoder return a score tensor and a mask tensor of rank 4, and let
  \<open>logits\<close> be the mask tensor read as a matrix when its size is the size of the
  model's input, and the result of \<^verbatim>\<open>cv::resize\<close> to that size otherwise. Then getMask
  returns a one-channel 8-bit matrix of the size of the model's input whose pixel
  \<open>(i, j)\<close> is 255 when the logit at \<open>(i, j)\<close> is greater than 0 and 0 otherwise: the
  resize comes first, the comparison with zero second, no other function is applied
  to the logits, and every pixel is 0 or 255. The score is the first value of the score
  tensor.
\<close>

theorem mask_threshold:
  assumes shape: "inputShapePre m = [n, c, int H, int W]"
    and range: "int H < 2 ^ 31" "int W < 2 ^ 31"
    and sam: "sessionSam m = Some sam"
    and run: "Run sam (zip inputNamesEdgeSam (inputTensorsSam points negativePoints roi m))
                outputNamesEdgeSam = Some [scores, masks]"
    and score: "t_data scores = iou # rest"
    and mshape: "t_shape masks = [b, k, mh, mw]"
    and raw: "raw = \<lparr>mat_rows = to_int mh, mat_cols = to_int mw, mat_channels = 1,
                     mat_data = t_data masks\<rparr>"
    and logits: "(mat_size raw = Size (int W) (int H) \<and> logits = raw)
               \<or> (mat_size raw \<noteq> Size (int W) (int H)
                  \<and> cv_resize raw (Size (int W) (int H)) = Some logits)"
    and lcols: "mat_cols logits = int W" and ldata: "H * W \<le> length (mat_data logits)"
  shows "\<exists>mask. Sam_getMask cv_resize points negativePoints roi m = Inr (mask, iou)
           \<and> mat_rows mask = int H \<and> mat_cols mask = int W \<and> mat_channels mask = 1
           \<and> length (mat_data mask) = H * W
           \<and> (\<forall>i<H. \<forall>j<W. mat_data mask ! (i * W + j)
                 = (if 0 < mat_data logits ! (i * W + j) then 255 else 0))
           \<and> (\<forall>p\<in>set (mat_data mask). p = 0 \<or> p = 255)"
proof -
  let ?out = "\<lparr>mat_rows = int H, mat_cols = int W, mat_channels = 1,
               mat_data = replicate (H * W) (0 :: 8 word)\<rparr>"
  have prep: "prepare_mask empty_Mat m = Inr ?out"
    by (rule prepare_mask_fresh [OF shape range])
  have len4: "4 \<le> length (inputShapePre m)" by (simp add: shape)
  have get: "Sam_getMask cv_resize points negativePoints roi m
               = postprocess cv_resize [scores, masks] ?out"
    unfolding Sam_getMask_def getMask_run [OF len4 sam] prep and_then_Inr run by simp
  have "\<exists>buf. postprocess cv_resize [scores, masks] ?out = Inr (?out\<lparr>mat_data := buf\<rparr>, iou)
           \<and> mask_inv logits H W H 0 buf"
  proof (rule postprocess_ok [where R = H and C = W, OF mshape score])
    show "(mat_size \<lparr>mat_rows = to_int mh, mat_cols = to_int mw, mat_channels = 1,
                     mat_data = t_data masks\<rparr> = Size (int W) (int H)
            \<and> logits = \<lparr>mat_rows = to_int mh, mat_cols = to_int mw, mat_channels = 1,
                          mat_data = t_data masks\<rparr>)
         \<or> (mat_size \<lparr>mat_rows = to_int mh, mat_cols = to_int mw, mat_channels = 1,
                        mat_data = t_data masks\<rparr> \<noteq> Size (int W) (int H)
            \<and> cv_resize \<lparr>mat_rows = to_int mh, mat_cols = to_int mw, mat_channels = 1,
                           mat_data = t_data masks\<rparr> (Size (int W) (int H)) = Some logits)"
      using logits unfolding raw .
  qed (simp_all add: lcols ldata)
  then obtain buf
    where post: "postprocess cv_resize [scores, masks] ?out = Inr (?out\<lparr>mat_data := buf\<rparr>, iou)"
      and inv: "mask_inv logits H W H 0 buf"
    by blast
  from inv have len: "length buf = H * W" by (simp add: mask_inv_def)
  note px = mask_inv_pixels [OF inv]
  show ?thesis
  proof (intro exI [of _ "?out\<lparr>mat_data := buf\<rparr>"] conjI)
    show "Sam_getMask cv_resize points negativePoints roi m = Inr (?out\<lparr>mat_data := buf\<rparr>, iou)"
      using get post by simp
    show "\<forall>i<H. \<forall>j<W. mat_data (?out\<lparr>mat_data := buf\<rparr>) ! (i * W + j)
                 = (if 0 < mat_data logits ! (i * W + j) then 255 else 0)"
      using px(1) by (simp add: threshold_def)
    show "\<forall>p\<in>set (mat_data (?out\<lparr>mat_data := buf\<rparr>)). p = 0 \<or> p = 255"
      using px(2) by simp
  qed (simp_all add: len)
qed


theorem mask_threshold_witness:
  "(\<exists>mask. Sam_getMask ex_resize [Point 1 1] [] (Rect 0 0 0 0) ex_model = Inr (mask, 9 / 10)
       \<and> mat_rows mask = 2 \<and> mat_cols mask = 2 \<and> mat_channels mask = 1
       \<and> mat_data mask ! 0 = 0 \<and> mat_data mask ! 1 = 255)
   \<and> (\<exists>mask. Sam_getMask ex_resize [Point 1 1] [] (Rect 0 0 0 0) ex_small = Inr (mask, 9 / 10)
       \<and> mat_rows mask = 1 \<and> mat_cols mask = 1 \<and> mat_channels mask = 1
       \<and> mat_data mask ! 0 = 0)"
proof -
  let ?scores = "\<lparr>t_data = [9 / 10], t_count = 1, t_shape = [1, 1]\<rparr>"
  let ?masks = "\<lparr>t_data = [-1, 1, 1, -1], t_count = 4, t_shape = [1, 1, 2, 2]\<rparr>"
  let ?raw = "\<lparr>mat_rows = to_int 2, mat_cols = to_int 2, mat_channels = 1,
               mat_data = t_data ?masks\<rparr>"
  let ?small = "\<lparr>mat_rows = 1, mat_cols = 1, mat_channels = 1, mat_data = [- 1 :: real]\<rparr>"
  have r: "int 2 < 2 ^ 31" "int 1 < 2 ^ 31" by simp_all
  have score: "t_data ?scores = 9 / 10 # []" by simp
  have mshape: "t_shape ?masks = [1, 1, 2, 2]" by simp
  have a1: "inputShapePre ex_model = [1, 3, int 2, int 2]" by (simp add: ex_model_def)
  have a2: "sessionSam ex_model = Some ex_sam" by (simp add: ex_model_def)
  have a3: "Run ex_sam (zip inputNamesEdgeSam
                 (inputTensorsSam [Point 1 1] [] (Rect 0 0 0 0) ex_model)) outputNamesEdgeSam
            = Some [?scores, ?masks]"
    by (simp add: ex_sam_def)
  have a4: "(mat_size ?raw = Size (int 2) (int 2) \<and> ?raw = ?raw)
          \<or> (mat_size ?raw \<noteq> Size (int 2) (int 2)
             \<and> ex_resize ?raw (Size (int 2) (int 2)) = Some ?raw)"
    by (simp add: mat_size_def to_int_def)
  have a5: "mat_cols ?raw = int 2" by (simp add: to_int_def)
  have a6: "2 * 2 \<le> length (mat_data ?raw)" by simp
  from mask_threshold [where H = 2 and W = 2 and raw = "?raw" and logits = "?raw"
         and cv_resize = ex_resize and masks = "?masks" and scores = "?scores",
         OF a1 r(1) r(1) a2 a3 score mshape refl a4 a5 a6]
  obtain mask
    where m1: "Sam_getMask ex_resize [Point 1 1] [] (Rect 0 0 0 0) ex_model = Inr (mask, 9 / 10)"
      and m2: "mat_rows mask = int 2" "mat_cols mask = int 2" "mat_channels mask = 1"
      and m3: "\<forall>i<2. \<forall>j<2. mat_data mask ! (i * 2 + j)
                 = (if 0 < mat_data ?raw ! (i * 2 + j) then 255 else 0)"
    by blast
  have "mat_data mask ! (0 * 2 + 0) = (if 0 < mat_data ?raw ! (0 * 2 + 0) then 255 else 0)"
    using m3 by (meson pos2)
  then have p0: "mat_data mask ! 0 = 0" by simp
  have "mat_data mask ! (0 * 2 + 1) = (if 0 < mat_data ?raw ! (0 * 2 + 1) then 255 else 0)"
    using m3 by (meson pos2 one_less_numeral_iff semiring_norm(76))
  then have p1: "mat_data mask ! 1 = 255" by simp
  have first: "\<exists>mask. Sam_getMask ex_resize [Point 1 1] [] (Rect 0 0 0 0) ex_model
                        = Inr (mask, 9 / 10)
       \<and> mat_rows mask = 2 \<and> mat_cols mask = 2 \<and> mat_channels mask = 1
       \<and> mat_data mask ! 0 = 0 \<and> mat_data mask ! 1 = 255"
    using m1 m2 p0 p1 by auto
  have b1: "inputShapePre ex_small = [1, 3, int 1, int 1]" by (simp add: ex_small_def)
  have b2: "sessionSam ex_small = Some ex_sam" by (simp add: ex_small_def ex_model_def)
  have b3: "Run ex_sam (zip inputNamesEdgeSam
                 (inputTensorsSam [Point 1 1] [] (Rect 0 0 0 0) ex_small)) outputNamesEdgeSam
            = Some [?scores, ?masks]"
    by (simp add: ex_sam_def)
  have b4: "(mat_size ?raw = Size (int 1) (int 1) \<and> ?small = ?raw)
          \<or> (mat_size ?raw \<noteq> Size (int 1) (int 1)
             \<and> ex_resize ?raw (Size (int 1) (int 1)) = Some ?small)"
    by (simp add: mat_size_def to_int_def ex_resize_def)
  have b5: "mat_cols ?small = int 1" by simp
  have b6: "1 * 1 \<le> length (mat_data ?small)" by simp
  from mask_threshold [where H = 1 and W = 1 and raw = "?raw" and logits = "?small"
         and cv_resize = ex_resize and masks = "?masks" and scores = "?scores",
         OF b1 r(2) r(2) b2 b3 score mshape refl b4 b5 b6]
  obtain mask'
    where n1: "Sam_getMask ex_resize [Point 1 1] [] (Rect 0 0 0 0) ex_small = Inr (mask', 9 / 10)"
      and n2: "mat_rows mask' = int 1" "mat_cols mask' = int 1" "mat_channels mask' = 1"
      and n3: "\<forall>i<1. \<forall>j<1. mat_data mask' ! (i * 1 + j)
                 = (if 0 < mat_data ?small ! (i * 1 + j) then 255 else 0)"
    by blast
  have "mat_data mask' ! (0 * 1 + 0) = (if 0 < mat_data ?small ! (0 * 1 + 0) then 255 else 0)"
    using n3 by (meson zero_less_one)
  then have q0: "mat_data mask' ! 0 = 0" by simp
  have second: "\<exists>mask. Sam_getMask ex_resize [Point 1 1] [] (Rect 0 0 0 0) ex_small
                         = Inr (mask, 9 / 10)
       \<and> mat_rows mask = 1 \<and> mat_cols mask = 1 \<and> mat_channels mask = 1
       \<and> mat_data mask ! 0 = 0"
    using n1 n2 q0 by auto
  show ?thesis using first second by blast
qed

subsection \<open>What getMask hands to the decoder\<close>

lemma prepare_mask_empty:
  assumes len: "4 \<le> length (inputShapePre m)"
    and nonneg: "0 \<le> to_int (inputShapePre m ! 2)" "0 \<le> to_int (inputShapePre m ! 3)"
  shows "prepare_mask empty_Mat m = Inr (fresh_mask m)"
proof (cases "to_int (inputShapePre m ! 3) = 0 \<and> to_int (inputShapePre m ! 2) = 0")
  case True
  then show ?thesis
    using len by (simp add: prepare_mask_def vec_at_def empty_Mat_def mat_size_def fresh_mask_def)
next
  case False
  then have "mat_size empty_Mat
               \<noteq> Size (to_int (inputShapePre m ! 3)) (to_int (inputShapePre m ! 2))"
    by (auto simp: mat_size_def empty_Mat_def)
  then show ?thesis
    using len nonneg by (simp add: prepare_mask_def vec_at_def new_Mat_def fresh_mask_def)
qed

lemma Sam_getMask_run:
  assumes len: "4 \<le> length (inputShapePre m)" and sam: "sessionSam m = Some sam"
    and nonneg: "0 \<le> to_int (inputShapePre m ! 2)" "0 \<le> to_int (inputShapePre m ! 3)"
  shows "Sam_getMask cv_resize points negativePoints roi m =
           (case Run sam (zip inputNamesEdgeSam (inputTensorsSam points negativePoints roi m))
                   outputNamesEdgeSam of
              None \<Rightarrow> Inl OrtException
            | Some outputTensorsSam \<Rightarrow> postprocess cv_resize outputTensorsSam (fresh_mask m))"
  unfolding Sam_getMask_def getMask_run [OF len sam] prepare_mask_empty [OF len nonneg]
  by simp

lemma length_encode_prompt:
  "length (snd (encode_prompt points negativePoints roi))
     = num_prompt_points points negativePoints roi"
  by (simp add: encode_prompt_eq num_prompt_points_def)

lemma inputTensorsSam_eq:
  assumes "int (num_prompt_points points negativePoints roi) < 2 ^ 30"
  shows "zip inputNamesEdgeSam (inputTensorsSam points negativePoints roi m) =
     [(''image_embeddings'',
         \<lparr>t_data = outputTensorValuesPre m, t_count = int (length (outputTensorValuesPre m)),
          t_shape = outputShapePre m\<rparr>),
      (''point_coords'',
         \<lparr>t_data = fst (encode_prompt points negativePoints roi),
          t_count = 2 * int (num_prompt_points points negativePoints roi),
          t_shape = [1, int (num_prompt_points points negativePoints roi), 2]\<rparr>),
      (''point_labels'',
         \<lparr>t_data = snd (encode_prompt points negativePoints roi),
          t_count = int (num_prompt_points points negativePoints roi),
          t_shape = [1, int (num_prompt_points points negativePoints roi)]\<rparr>)]"
proof -
  let ?N = "int (num_prompt_points points negativePoints roi)"
  have n: "to_int ?N = ?N" using assms by (intro to_int_id) (simp add: int_range_def)
  have n2: "to_int (2 * ?N) = 2 * ?N" using assms by (intro to_int_id) (simp add: int_range_def)
  show ?thesis
    unfolding inputTensorsSam_def inputNamesEdgeSam_def Let_def
    by (simp add: case_prod_unfold length_encode_prompt n n2 as_tensor_def)
qed


lemma ex_postprocess:
  "postprocess ex_resize
     [\<lparr>t_data = [s], t_count = 1, t_shape = [1, 1]\<rparr>,
      \<lparr>t_data = [-1, 1, 1, -1], t_count = 4, t_shape = [1, 1, 2, 2]\<rparr>]
     \<lparr>mat_rows = 2, mat_cols = 2, mat_channels = 1, mat_data = [0, 0, 0, 0]\<rparr>
   = Inr (\<lparr>mat_rows = 2, mat_cols = 2, mat_channels = 1, mat_data = [0, 255, 255, 0]\<rparr>, s)"
proof -
  have upt2: "[0..<2] = [0, 1]" by code_simp
  show ?thesis
    by (simp add: postprocess_def vec_at_def to_int_def mat_size_def threshold_mask_def
          at_elem_def vec_set_def threshold_def Let_def upt2)
qed

lemma ex_fresh_mask:
  "inputShapePre m = [1, 3, 2, 2] \<Longrightarrow>
   fresh_mask m = \<lparr>mat_rows = 2, mat_cols = 2, mat_channels = 1, mat_data = [0, 0, 0, 0]\<rparr>"
  by (simp add: fresh_mask_def to_int_def numeral_eq_Suc)

text \<open>
  C1, as the code has it. In every state of a session whose models were loaded (the
  declared input height and width not negative as \<^verbatim>\<open>int\<close>, fewer than \<open>2^30\<close> encoded
  points), getMask runs the decoder with exactly three named tensors: the cached embedding under the encoder's declared
  output shape, the \<open>2 * N\<close> point coordinates with shape \<open>1 \<times> N \<times> 2\<close> and the \<open>N\<close>
  point labels with shape \<open>1 \<times> N\<close>; it asks for the two outputs \<open>scores\<close> and \<open>masks\<close>,
  and its result is the runtime's exception or the post-processed outputs. The mask
  prior, the has-mask flag and the image size are not among the inputs.
\<close>

theorem decoder_inputs:
  assumes state: "session_state m" and loaded: "bModelLoaded m"
    and nonneg: "0 \<le> to_int (inputShapePre m ! 2)" "0 \<le> to_int (inputShapePre m ! 3)"
    and count: "int (num_prompt_points points negativePoints roi) < 2 ^ 30"
  shows "\<exists>sam. sessionSam m = Some sam
         \<and> Sam_getMask cv_resize points negativePoints roi m =
             (case Run sam
                [(''image_embeddings'',
                    \<lparr>t_data = outputTensorValuesPre m,
                     t_count = int (length (outputTensorValuesPre m)),
                     t_shape = outputShapePre m\<rparr>),
                 (''point_coords'',
                    \<lparr>t_data = fst (encode_prompt points negativePoints roi),
                     t_count = 2 * int (num_prompt_points points negativePoints roi),
                     t_shape = [1, int (num_prompt_points points negativePoints roi), 2]\<rparr>),
                 (''point_labels'',
                    \<lparr>t_data = snd (encode_prompt points negativePoints roi),
                     t_count = int (num_prompt_points points negativePoints roi),
                     t_shape = [1, int (num_prompt_points points negativePoints roi)]\<rparr>)]
                outputNamesEdgeSam of
                None \<Rightarrow> Inl OrtException
              | Some outputTensorsSam \<Rightarrow> postprocess cv_resize outputTensorsSam (fresh_mask m))
         \<and> length (fst (encode_prompt points negativePoints roi))
             = 2 * num_prompt_points points negativePoints roi
         \<and> length (snd (encode_prompt points negativePoints roi))
             = num_prompt_points points negativePoints roi"
proof -
  from session_state_loaded [OF state] loaded obtain sam
    where sam: "sessionSam m = Some sam" and len: "length (inputShapePre m) = 4"
    by blast
  have len4: "4 \<le> length (inputShapePre m)" using len by simp
  have coords: "length (fst (encode_prompt points negativePoints roi))
             = 2 * num_prompt_points points negativePoints roi"
    by (simp add: encode_prompt_eq num_prompt_points_def point_coords_def length_concat
          comp_def sum_list_triv)
  show ?thesis
    using sam coords
    unfolding Sam_getMask_run [OF len4 sam nonneg] inputTensorsSam_eq [OF count]
    by (simp add: length_encode_prompt)
qed


lemma ex_load_general:
  assumes "inputShapePre m = [1, 3, 2, 2]" and "outputShapePre m = [1, 1, 1, 2]"
    and "sessionPre m = Some ex_pre"
  shows "loadImage ex_img m = (Inr True, m\<lparr>outputTensorValuesPre := [1, 1 / 85]\<rparr>)"
proof -
  have w: "vec_at (inputShapePre m) 3 = Inr 2" and h: "vec_at (inputShapePre m) 2 = Inr 2"
    by (simp_all add: assms vec_at_def)
  have size: "mat_size ex_img = Size (to_int 2) (to_int 2)"
    by (simp add: mat_size_def ex_img_def to_int_def)
  have ch: "mat_channels ex_img = 3" by (simp add: ex_img_def)
  have tensor: "inputTensorValuesFloat ex_img (inputShapePre m) =
     Inr [1, 1 / 85, 2 / 85, 3 / 85, 1 / 5, 2 / 255, 1 / 51, 8 / 255, 0, 1 / 255, 4 / 255,
          7 / 255]"
    using ex_tensor by (simp add: assms)
  have zeros: "and_then (shape_product (outputShapePre m)) new_vector = Inr [0, 0]"
    by (simp add: assms shape_product_def vec_at_def mul64_def int64_range_def
          new_vector_def numeral_2_eq_2)
  have run: "RunBound ex_pre
       [(''image'', as_tensor [1, 1 / 85, 2 / 85, 3 / 85, 1 / 5, 2 / 255, 1 / 51, 8 / 255, 0,
                               1 / 255, 4 / 255, 7 / 255] (inputShapePre m))]
       [(''image_embeddings'', as_tensor [0, 0] (outputShapePre m))] = RunFilled [[1, 1 / 85]]"
    by (simp add: ex_pre_def as_tensor_def)
  show ?thesis
    using loadImage_accepted [OF w h size ch tensor zeros assms(3) run] by simp
qed

lemma ex_loaded_state: "session_state ex_loaded"
  by (rule session_state.loaded [OF ex_model_state ex_load]) simp

lemma ex_probed_state: "session_state ex_probed"
proof -
  have "SamModel_ctor ex_file_good ex_open (Parameter ''pre'' ''probe'' 1)
          = Inr (ex_model\<lparr>sessionSam := Some ex_probe\<rparr>)"
    by (simp add: SamModel_ctor_def ex_file_good_def ex_open_def ex_model_def
          SamModel_members_def ex_pre_def ex_sam_def ex_probe_def)
  then have "session_state (ex_model\<lparr>sessionSam := Some ex_probe\<rparr>)"
    by (rule session_state.constructed)
  moreover have "loadImage ex_img (ex_model\<lparr>sessionSam := Some ex_probe\<rparr>) = (Inr True, ex_probed)"
    using ex_load_general [of "ex_model\<lparr>sessionSam := Some ex_probe\<rparr>"]
    by (simp add: ex_model_def ex_probed_def)
  ultimately show ?thesis
    by (rule session_state.loaded) simp
qed

lemma ex_tensors:
  assumes "outputTensorValuesPre m = cache" and "outputShapePre m = [1, 1, 1, 2]"
  shows "zip inputNamesEdgeSam (inputTensorsSam [Point 1 1] [] (Rect 0 0 0 0) m) =
     [(''image_embeddings'', \<lparr>t_data = cache, t_count = int (length cache),
                               t_shape = [1, 1, 1, 2]\<rparr>),
      (''point_coords'', \<lparr>t_data = [1, 1], t_count = 2, t_shape = [1, 1, 2]\<rparr>),
      (''point_labels'', \<lparr>t_data = [1], t_count = 1, t_shape = [1, 1]\<rparr>)]"
proof -
  have n: "num_prompt_points [Point 1 1] [] (Rect 0 0 0 0) = 1"
    by (simp add: num_prompt_points_def rect_empty_def)
  have c: "int (num_prompt_points [Point 1 1] [] (Rect 0 0 0 0)) < 2 ^ 30"
    unfolding n by simp
  show ?thesis
    unfolding inputTensorsSam_eq [OF c] n
    by (simp add: assms encode_prompt_eq rect_empty_def point_coords_def)
qed

theorem decoder_inputs_witness:
  "session_state ex_loaded \<and> bModelLoaded ex_loaded
   \<and> 0 \<le> to_int (inputShapePre ex_loaded ! 2) \<and> 0 \<le> to_int (inputShapePre ex_loaded ! 3)
   \<and> int (num_prompt_points [Point 1 1] [] (Rect 0 0 0 0)) < 2 ^ 30
   \<and> Sam_getMask ex_resize [Point 1 1] [] (Rect 0 0 0 0) ex_loaded
       = Inr (\<lparr>mat_rows = 2, mat_cols = 2, mat_channels = 1, mat_data = [0, 255, 255, 0]\<rparr>,
              9 / 10)"
proof -
  have loaded: "bModelLoaded ex_loaded" by (simp add: ex_loaded_def ex_model_def)
  have nonneg: "0 \<le> to_int (inputShapePre ex_loaded ! 2)"
    "0 \<le> to_int (inputShapePre ex_loaded ! 3)"
    by (simp_all add: ex_loaded_def ex_model_def to_int_def)
  have n: "num_prompt_points [Point 1 1] [] (Rect 0 0 0 0) = 1"
    by (simp add: num_prompt_points_def rect_empty_def)
  have count: "int (num_prompt_points [Point 1 1] [] (Rect 0 0 0 0)) < 2 ^ 30"
    unfolding n by simp
  from decoder_inputs [OF ex_loaded_state loaded nonneg count, of ex_resize]
  obtain sam where sam: "sessionSam ex_loaded = Some sam"
    and get: "Sam_getMask ex_resize [Point 1 1] [] (Rect 0 0 0 0) ex_loaded =
             (case Run sam
                [(''image_embeddings'',
                    \<lparr>t_data = outputTensorValuesPre ex_loaded,
                     t_count = int (length (outputTensorValuesPre ex_loaded)),
                     t_shape = outputShapePre ex_loaded\<rparr>),
                 (''point_coords'',
                    \<lparr>t_data = fst (encode_prompt [Point 1 1] [] (Rect 0 0 0 0)),
                     t_count = 2 * int (num_prompt_points [Point 1 1] [] (Rect 0 0 0 0)),
                     t_shape = [1, int (num_prompt_points [Point 1 1] [] (Rect 0 0 0 0)), 2]\<rparr>),
                 (''point_labels'',
                    \<lparr>t_data = snd (encode_prompt [Point 1 1] [] (Rect 0 0 0 0)),
                     t_count = int (num_prompt_points [Point 1 1] [] (Rect 0 0 0 0)),
                     t_shape = [1, int (num_prompt_points [Point 1 1] [] (Rect 0 0 0 0))]\<rparr>)]
                outputNamesEdgeSam of
                None \<Rightarrow> Inl OrtException
              | Some outputTensorsSam \<Rightarrow>
                  postprocess ex_resize outputTensorsSam (fresh_mask ex_loaded))"
    by blast
  from sam have "sam = ex_sam" by (simp add: ex_loaded_def ex_model_def)
  then have "Sam_getMask ex_resize [Point 1 1] [] (Rect 0 0 0 0) ex_loaded
       = Inr (\<lparr>mat_rows = 2, mat_cols = 2, mat_channels = 1, mat_data = [0, 255, 255, 0]\<rparr>,
              9 / 10)"
    unfolding get
    by (simp add: ex_sam_def ex_postprocess ex_fresh_mask ex_loaded_def ex_model_def)
  then show ?thesis using ex_loaded_state loaded nonneg count by simp
qed

text \<open>
  A decoder that reports how many input tensors it was run with: the list that getMask
  hands over has three entries, and the score that comes back is 3.
\<close>

theorem decoder_gets_three_inputs:
  "zip inputNamesEdgeSam (inputTensorsSam [Point 1 1] [] (Rect 0 0 0 0) ex_probed) =
     [(''image_embeddings'', \<lparr>t_data = [1, 1 / 85], t_count = 2, t_shape = [1, 1, 1, 2]\<rparr>),
      (''point_coords'', \<lparr>t_data = [1, 1], t_count = 2, t_shape = [1, 1, 2]\<rparr>),
      (''point_labels'', \<lparr>t_data = [1], t_count = 1, t_shape = [1, 1]\<rparr>)]
   \<and> Sam_getMask ex_resize [Point 1 1] [] (Rect 0 0 0 0) ex_probed
       = Inr (\<lparr>mat_rows = 2, mat_cols = 2, mat_channels = 1, mat_data = [0, 255, 255, 0]\<rparr>, 3)"
proof -
  have tensors: "zip inputNamesEdgeSam (inputTensorsSam [Point 1 1] [] (Rect 0 0 0 0) ex_probed) =
     [(''image_embeddings'', \<lparr>t_data = [1, 1 / 85], t_count = 2, t_shape = [1, 1, 1, 2]\<rparr>),
      (''point_coords'', \<lparr>t_data = [1, 1], t_count = 2, t_shape = [1, 1, 2]\<rparr>),
      (''point_labels'', \<lparr>t_data = [1], t_count = 1, t_shape = [1, 1]\<rparr>)]"
    using ex_tensors [of ex_probed "[1, 1 / 85]"] by (simp add: ex_probed_def ex_model_def)
  have len: "4 \<le> length (inputShapePre ex_probed)"
    and sam: "sessionSam ex_probed = Some ex_probe"
    and nonneg: "0 \<le> to_int (inputShapePre ex_probed ! 2)"
      "0 \<le> to_int (inputShapePre ex_probed ! 3)"
    by (simp_all add: ex_probed_def ex_model_def to_int_def)
  have "Sam_getMask ex_resize [Point 1 1] [] (Rect 0 0 0 0) ex_probed
       = Inr (\<lparr>mat_rows = 2, mat_cols = 2, mat_channels = 1, mat_data = [0, 255, 255, 0]\<rparr>, 3)"
    unfolding Sam_getMask_run [OF len sam nonneg] tensors
    by (simp add: ex_probe_def ex_sam_def ex_postprocess ex_fresh_mask ex_probed_def ex_model_def)
  then show ?thesis using tensors by simp
qed





text \<open>
  C9. After a loadImage that returned true, getMask with no points and no box (an empty
  \<^verbatim>\<open>cv::Rect\<close>) encodes arrays of length zero, runs the decoder with the cached
  embedding and two tensors of zero elements, of shapes \<open>1 \<times> 0 \<times> 2\<close> and \<open>1 \<times> 0\<close>, and
  returns what the run and the post-processing give: no check rejects the empty prompt.
\<close>

theorem empty_prompt_runs_decoder:
  assumes state: "session_state m0" and loaded: "bModelLoaded m0"
    and load: "loadImage img m0 = (Inr True, m)"
    and img: "0 \<le> mat_rows img" "0 \<le> mat_cols img"
    and roi: "rect_empty roi"
  shows "encode_prompt [] [] roi = ([], [])
         \<and> (\<exists>sam. sessionSam m = Some sam
              \<and> Sam_getMask cv_resize [] [] roi m =
                  (case Run sam
                     [(''image_embeddings'',
                         \<lparr>t_data = outputTensorValuesPre m,
                          t_count = int (length (outputTensorValuesPre m)),
                          t_shape = outputShapePre m\<rparr>),
                      (''point_coords'', \<lparr>t_data = [], t_count = 0, t_shape = [1, 0, 2]\<rparr>),
                      (''point_labels'', \<lparr>t_data = [], t_count = 0, t_shape = [1, 0]\<rparr>)]
                     outputNamesEdgeSam of
                     None \<Rightarrow> Inl OrtException
                   | Some outputTensorsSam \<Rightarrow>
                       postprocess cv_resize outputTensorsSam (fresh_mask m)))"
proof -
  have enc: "encode_prompt [] [] roi = ([], [])"
    using roi by (simp add: encode_prompt_eq)
  have n: "num_prompt_points [] [] roi = 0"
    using roi by (simp add: num_prompt_points_def)
  have count: "int (num_prompt_points [] [] roi) < 2 ^ 30" unfolding n by simp
  from session_state_loaded [OF state] loaded obtain sam
    where sam0: "sessionSam m0 = Some sam" and len0: "length (inputShapePre m0) = 4"
    by blast
  note frame = loadImage_frame [OF load]
  have sam: "sessionSam m = Some sam" using frame sam0 by simp
  have len4: "4 \<le> length (inputShapePre m)" using frame len0 by simp
  have "fst (loadImage img m0) = Inr True" using load by simp
  from loadImage_True [OF this]
  have "mat_size img = Size (to_int (inputShapePre m0 ! 3)) (to_int (inputShapePre m0 ! 2))"
    by simp
  then have "to_int (inputShapePre m ! 3) = mat_cols img"
    and "to_int (inputShapePre m ! 2) = mat_rows img"
    using frame by (simp_all add: mat_size_def)
  then have nonneg: "0 \<le> to_int (inputShapePre m ! 2)" "0 \<le> to_int (inputShapePre m ! 3)"
    using img by simp_all
  show ?thesis
    using sam enc
    unfolding Sam_getMask_run [OF len4 sam nonneg] inputTensorsSam_eq [OF count] n
    by simp
qed

theorem empty_prompt_runs_decoder_witness:
  "session_state ex_model \<and> bModelLoaded ex_model
   \<and> loadImage ex_img ex_model = (Inr True, ex_loaded)
   \<and> 0 \<le> mat_rows ex_img \<and> 0 \<le> mat_cols ex_img \<and> rect_empty (Rect 0 0 0 0)
   \<and> encode_prompt [] [] (Rect 0 0 0 0) = ([], [])
   \<and> Sam_getMask ex_resize [] [] (Rect 0 0 0 0) ex_loaded
       = Inr (\<lparr>mat_rows = 2, mat_cols = 2, mat_channels = 1, mat_data = [0, 255, 255, 0]\<rparr>,
              9 / 10)"
proof -
  have loaded: "bModelLoaded ex_model" by (simp add: ex_model_def)
  have img: "0 \<le> mat_rows ex_img" "0 \<le> mat_cols ex_img" by (simp_all add: ex_img_def)
  from empty_prompt_runs_decoder [OF ex_model_state loaded ex_load img rect_empty_default,
      of ex_resize]
  obtain sam where enc: "encode_prompt [] [] (Rect 0 0 0 0) = ([], [])"
    and sam: "sessionSam ex_loaded = Some sam"
    and get: "Sam_getMask ex_resize [] [] (Rect 0 0 0 0) ex_loaded =
                  (case Run sam
                     [(''image_embeddings'',
                         \<lparr>t_data = outputTensorValuesPre ex_loaded,
                          t_count = int (length (outputTensorValuesPre ex_loaded)),
                          t_shape = outputShapePre ex_loaded\<rparr>),
                      (''point_coords'', \<lparr>t_data = [], t_count = 0, t_shape = [1, 0, 2]\<rparr>),
                      (''point_labels'', \<lparr>t_data = [], t_count = 0, t_shape = [1, 0]\<rparr>)]
                     outputNamesEdgeSam of
                     None \<Rightarrow> Inl OrtException
                   | Some outputTensorsSam \<Rightarrow>
                       postprocess ex_resize outputTensorsSam (fresh_mask ex_loaded))"
    by blast
  from sam have "sam = ex_sam" by (simp add: ex_loaded_def ex_model_def)
  then have "Sam_getMask ex_resize [] [] (Rect 0 0 0 0) ex_loaded
       = Inr (\<lparr>mat_rows = 2, mat_cols = 2, mat_channels = 1, mat_data = [0, 255, 255, 0]\<rparr>,
              9 / 10)"
    unfolding get
    by (simp add: ex_sam_def ex_postprocess ex_fresh_mask ex_loaded_def ex_model_def)
  then show ?thesis using ex_model_state loaded ex_load img rect_empty_default enc by simp
qed

subsection \<open>Sessions whose construction failed\<close>










end
